theory Spec2Isabelle
  imports Complex_Main "HOL-Library.Word" "HOL-Library.Signed_Division"
begin

unbundle bit_operations_syntax

section \<open>Machine integers\<close>

text \<open>
  The driver computes with the fixed-width integer types of \<^verbatim>\<open>stdint.h\<close>. Each is a
  word of that width; an unsigned variable is read with \<open>uint\<close>, a signed one with
  \<open>sint\<close>. Conversions between widths are \<open>ucast\<close> (from an unsigned type, zero
  extension) and \<open>scast\<close> (from a signed type, sign extension). \<^verbatim>\<open>>>\<close> on a signed
  operand is the arithmetic shift \<open>signed_drop_bit\<close>, on an unsigned operand the logical
  shift \<open>drop_bit\<close>; \<^verbatim>\<open><<\<close> is \<open>push_bit\<close>. Signed arithmetic that leaves the range wraps
  around (two's complement), which is what the compilers of the supported boards
  produce.
\<close>

type_synonym u8 = "8 word"
type_synonym i8 = "8 word"
type_synonym u16 = "16 word"
type_synonym i16 = "16 word"
type_synonym u32 = "32 word"
type_synonym i32 = "32 word"
type_synonym i64 = "64 word"

section \<open>Register map (ErriezBMX280.h)\<close>

definition BMX280_REG_DIG_T1 :: u8 where "BMX280_REG_DIG_T1 = 0x88"
definition BMX280_REG_DIG_T2 :: u8 where "BMX280_REG_DIG_T2 = 0x8A"
definition BMX280_REG_DIG_T3 :: u8 where "BMX280_REG_DIG_T3 = 0x8C"
definition BMX280_REG_DIG_P1 :: u8 where "BMX280_REG_DIG_P1 = 0x8E"
definition BMX280_REG_DIG_P2 :: u8 where "BMX280_REG_DIG_P2 = 0x90"
definition BMX280_REG_DIG_P3 :: u8 where "BMX280_REG_DIG_P3 = 0x92"
definition BMX280_REG_DIG_P4 :: u8 where "BMX280_REG_DIG_P4 = 0x94"
definition BMX280_REG_DIG_P5 :: u8 where "BMX280_REG_DIG_P5 = 0x96"
definition BMX280_REG_DIG_P6 :: u8 where "BMX280_REG_DIG_P6 = 0x98"
definition BMX280_REG_DIG_P7 :: u8 where "BMX280_REG_DIG_P7 = 0x9A"
definition BMX280_REG_DIG_P8 :: u8 where "BMX280_REG_DIG_P8 = 0x9C"
definition BMX280_REG_DIG_P9 :: u8 where "BMX280_REG_DIG_P9 = 0x9E"
definition BME280_REG_DIG_H1 :: u8 where "BME280_REG_DIG_H1 = 0xA1"
definition BME280_REG_DIG_H2 :: u8 where "BME280_REG_DIG_H2 = 0xE1"
definition BME280_REG_DIG_H3 :: u8 where "BME280_REG_DIG_H3 = 0xE3"
definition BME280_REG_DIG_H4 :: u8 where "BME280_REG_DIG_H4 = 0xE4"
definition BME280_REG_DIG_H5 :: u8 where "BME280_REG_DIG_H5 = 0xE5"
definition BME280_REG_DIG_H6 :: u8 where "BME280_REG_DIG_H6 = 0xE7"
definition BME280_REG_CHIPID :: u8 where "BME280_REG_CHIPID = 0xD0"
definition BME280_REG_RESET :: u8 where "BME280_REG_RESET = 0xE0"
definition BME280_REG_CTRL_HUM :: u8 where "BME280_REG_CTRL_HUM = 0xF2"
definition BMX280_REG_STATUS :: u8 where "BMX280_REG_STATUS = 0xF3"
definition BMX280_REG_CTRL_MEAS :: u8 where "BMX280_REG_CTRL_MEAS = 0xF4"
definition BMX280_REG_CONFIG :: u8 where "BMX280_REG_CONFIG = 0xF5"
definition BMX280_REG_PRESS :: u8 where "BMX280_REG_PRESS = 0xF7"
definition BMX280_REG_TEMP :: u8 where "BMX280_REG_TEMP = 0xFA"
definition BME280_REG_HUM :: u8 where "BME280_REG_HUM = 0xFD"

definition CHIP_ID_BMP280 :: u8 where "CHIP_ID_BMP280 = 0x58"
definition CHIP_ID_BME280 :: u8 where "CHIP_ID_BME280 = 0x60"
definition RESET_KEY :: u8 where "RESET_KEY = 0xB6"
definition STATUS_IM_UPDATE :: nat where "STATUS_IM_UPDATE = 0"

section \<open>The driver object\<close>

text \<open>The private members of class \<^verbatim>\<open>ErriezBMX280\<close>, with their declared widths.\<close>

record session =
  i2cAddr :: u8
  chipID :: u8
  t_fine :: i32
  dig_T1 :: u16
  dig_T2 :: i16
  dig_T3 :: i16
  dig_P1 :: u16
  dig_P2 :: i16
  dig_P3 :: i16
  dig_P4 :: i16
  dig_P5 :: i16
  dig_P6 :: i16
  dig_P7 :: i16
  dig_P8 :: i16
  dig_P9 :: i16
  dig_H1 :: u8
  dig_H2 :: i16
  dig_H3 :: u8
  dig_H4 :: i16
  dig_H5 :: i16
  dig_H6 :: i8

section \<open>The two-wire bus\<close>

text \<open>
  The Arduino \<^verbatim>\<open>Wire\<close> object is not part of the driver; it is a parameter of every
  function below. Its state \<open>'w\<close> (the library's buffers and whatever is attached to the
  bus) is arbitrary. The driver uses three of its operations:
  \<^item> \<^verbatim>\<open>beginTransmission(a); write(b1); ...; endTransmission()\<close>, which sends the bytes
    to address \<open>a\<close> and yields a status byte, 0 for success;
  \<^item> \<^verbatim>\<open>requestFrom(a, n)\<close>, which asks the device at \<open>a\<close> for \<open>n\<close> bytes (the driver
    drops the count it returns);
  \<^item> \<^verbatim>\<open>read()\<close>, which takes the next received byte out of the buffer as an \<^verbatim>\<open>int\<close>
    (\<open>-1\<close> when the buffer is empty).
\<close>

record 'w wire =
  endTransmission :: "u8 \<Rightarrow> u8 list \<Rightarrow> 'w \<Rightarrow> u8 \<times> 'w"
  requestFrom :: "u8 \<Rightarrow> nat \<Rightarrow> 'w \<Rightarrow> 'w"
  wire_read :: "'w \<Rightarrow> int \<times> 'w"

text \<open>
  What the driver does to the outside is kept in a trace: every bus transaction it
  starts and every \<^verbatim>\<open>delay\<close> it makes, in program order.
\<close>

datatype event = Transmit u8 "u8 list" | Request u8 nat | Delay nat

record 'w world =
  bus :: 'w
  trace :: "event list"

definition Wire_transmit :: "'w wire \<Rightarrow> u8 \<Rightarrow> u8 list \<Rightarrow> 'w world \<Rightarrow> u8 \<times> 'w world" where
  "Wire_transmit W a bs w =
     (case endTransmission W a bs (bus w) of
        (st, b) \<Rightarrow> (st, \<lparr>bus = b, trace = trace w @ [Transmit a bs]\<rparr>))"

definition Wire_requestFrom :: "'w wire \<Rightarrow> u8 \<Rightarrow> nat \<Rightarrow> 'w world \<Rightarrow> 'w world" where
  "Wire_requestFrom W a n w =
     \<lparr>bus = requestFrom W a n (bus w), trace = trace w @ [Request a n]\<rparr>"

definition Wire_read :: "'w wire \<Rightarrow> 'w world \<Rightarrow> int \<times> 'w world" where
  "Wire_read W w =
     (case wire_read W (bus w) of (r, b) \<Rightarrow> (r, \<lparr>bus = b, trace = trace w\<rparr>))"

definition delay :: "nat \<Rightarrow> 'w world \<Rightarrow> 'w world" where
  "delay ms w = \<lparr>bus = bus w, trace = trace w @ [Delay ms]\<rparr>"

section \<open>Register access\<close>

text \<open>\<^verbatim>\<open>read8\<close>: a failed address phase ends the call with 0, before any request.\<close>

definition read8 :: "'w wire \<Rightarrow> session \<Rightarrow> u8 \<Rightarrow> 'w world \<Rightarrow> u8 \<times> 'w world" where
  "read8 W s reg w =
     (case Wire_transmit W (i2cAddr s) [reg] w of
        (st, w1) \<Rightarrow>
          if st \<noteq> 0 then (0, w1)
          else (case Wire_read W (Wire_requestFrom W (i2cAddr s) 1 w1) of
                  (r, w2) \<Rightarrow> (word_of_int r, w2)))"

text \<open>\<^verbatim>\<open>write8\<close>: the status of the transmission is dropped.\<close>

definition write8 :: "'w wire \<Rightarrow> session \<Rightarrow> u8 \<Rightarrow> u8 \<Rightarrow> 'w world \<Rightarrow> 'w world" where
  "write8 W s reg v w = snd (Wire_transmit W (i2cAddr s) [reg, v] w)"

text \<open>
  \<^verbatim>\<open>read16\<close>: \<^verbatim>\<open>(Wire.read() << 8) | Wire.read()\<close> is computed on \<^verbatim>\<open>int\<close> and converted to
  \<^verbatim>\<open>uint16_t\<close>; the left operand is read first.
\<close>

definition read16 :: "'w wire \<Rightarrow> session \<Rightarrow> u8 \<Rightarrow> 'w world \<Rightarrow> u16 \<times> 'w world" where
  "read16 W s reg w =
     (case Wire_transmit W (i2cAddr s) [reg] w of
        (st, w1) \<Rightarrow>
          if st \<noteq> 0 then (0, w1)
          else (case Wire_read W (Wire_requestFrom W (i2cAddr s) 2 w1) of
                  (hi, w2) \<Rightarrow>
                    (case Wire_read W w2 of
                       (lo, w3) \<Rightarrow> (word_of_int (push_bit 8 hi OR lo), w3))))"

definition read16_LE :: "'w wire \<Rightarrow> session \<Rightarrow> u8 \<Rightarrow> 'w world \<Rightarrow> u16 \<times> 'w world" where
  "read16_LE W s reg w =
     (case read16 W s reg w of
        (v, w1) \<Rightarrow> (drop_bit 8 v OR push_bit 8 v, w1))"

text \<open>\<^verbatim>\<open>readS16_LE\<close>: the same 16 bits, typed \<^verbatim>\<open>int16_t\<close>.\<close>

definition readS16_LE :: "'w wire \<Rightarrow> session \<Rightarrow> u8 \<Rightarrow> 'w world \<Rightarrow> i16 \<times> 'w world" where
  "readS16_LE W s reg w = read16_LE W s reg w"

text \<open>\<^verbatim>\<open>read24\<close>: the status of the address phase is not looked at.\<close>

definition read24 :: "'w wire \<Rightarrow> session \<Rightarrow> u8 \<Rightarrow> 'w world \<Rightarrow> u32 \<times> 'w world" where
  "read24 W s reg w =
     (case Wire_transmit W (i2cAddr s) [reg] w of
        (st, w1) \<Rightarrow>
          (case Wire_read W (Wire_requestFrom W (i2cAddr s) 3 w1) of
             (r1, w2) \<Rightarrow>
               (case Wire_read W w2 of
                  (r2, w3) \<Rightarrow>
                    (case Wire_read W w3 of
                       (r3, w4) \<Rightarrow>
                         (push_bit 8 (push_bit 8 (word_of_int r1) OR word_of_int r2)
                            OR word_of_int r3, w4)))))"

section \<open>Temperature\<close>

text \<open>
  \<^verbatim>\<open>readTemperature\<close>. The \<^verbatim>\<open>float\<close> results of the driver are given as the exact
  quotient they stand for: \<open>temperature\<close> is an \<^verbatim>\<open>int32_t\<close> shifted right by 8, so its
  conversion to \<^verbatim>\<open>float\<close> is exact, and the value returned is that integer over 100
  (which the machine rounds to the nearest \<^verbatim>\<open>float\<close>; the model keeps the quotient).
\<close>

definition readTemperature :: "'w wire \<Rightarrow> session \<Rightarrow> 'w world \<Rightarrow> real \<times> session \<times> 'w world" where
  "readTemperature W s w =
     (case read24 W s BMX280_REG_TEMP w of
        (raw, w1) \<Rightarrow>
          let adc_T = signed_drop_bit 4 (raw :: i32);
              var1 = signed_drop_bit 11
                       ((signed_drop_bit 3 adc_T - push_bit 1 (ucast (dig_T1 s)))
                          * scast (dig_T2 s));
              var2 = signed_drop_bit 14
                       (signed_drop_bit 12
                          ((signed_drop_bit 4 adc_T - ucast (dig_T1 s))
                             * (signed_drop_bit 4 adc_T - ucast (dig_T1 s)))
                          * scast (dig_T3 s));
              s1 = s\<lparr>t_fine := var1 + var2\<rparr>;
              temperature = signed_drop_bit 8 (t_fine s1 * 5 + 128)
          in (real_of_int (sint temperature) / 100, s1, w1))"

section \<open>Pressure\<close>

text \<open>
  The value of \<^verbatim>\<open>var1\<close> when \<^verbatim>\<open>readPressure\<close> tests it against zero (the assignments
  to \<^verbatim>\<open>var1\<close> before the test), and of \<^verbatim>\<open>var2\<close> at the same point.
\<close>

definition pressure_var1 :: "session \<Rightarrow> i64" where
  "pressure_var1 s =
     (let var1 = scast (t_fine s) - 128000;
          var1 = signed_drop_bit 8 (var1 * var1 * scast (dig_P3 s))
                   + push_bit 12 (var1 * scast (dig_P2 s))
      in signed_drop_bit 33 ((push_bit 47 1 + var1) * ucast (dig_P1 s)))"

definition pressure_var2 :: "session \<Rightarrow> i64" where
  "pressure_var2 s =
     (let var1 = scast (t_fine s) - 128000;
          var2 = var1 * var1 * scast (dig_P6 s);
          var2 = var2 + push_bit 17 (var1 * scast (dig_P5 s))
      in var2 + push_bit 35 (scast (dig_P4 s)))"

text \<open>
  The one division of the driver. Dividing by zero is a fault of the machine, not a
  value: it is \<open>None\<close>. Otherwise \<^verbatim>\<open>/\<close> on \<^verbatim>\<open>int64_t\<close> truncates towards zero
  (\<open>sdiv\<close> on \<open>int\<close>); the one quotient that leaves the range, \<open>- 2^63 / - 1\<close>, wraps
  around like the rest of the arithmetic.
\<close>

definition div_i64 :: "i64 \<Rightarrow> i64 \<Rightarrow> i64 option" where
  "div_i64 a b = (if b = 0 then None else Some (word_of_int (sint a sdiv sint b)))"

text \<open>
  The rest of \<^verbatim>\<open>readPressure\<close> after the test, from the 20-bit sample \<open>adc_P\<close>:
  the value of \<open>p\<close> that is converted to \<^verbatim>\<open>float\<close> and divided by 256.
\<close>

definition pressure_p :: "session \<Rightarrow> i32 \<Rightarrow> i64 \<Rightarrow> i64 \<Rightarrow> i64 option" where
  "pressure_p s adc_P var1 var2 =
     (let p = scast (1048576 - adc_P) :: i64
      in case div_i64 ((push_bit 31 p - var2) * 3125) var1 of
           None \<Rightarrow> None
         | Some p \<Rightarrow>
             let var1 = signed_drop_bit 25
                          (scast (dig_P9 s) * signed_drop_bit 13 p * signed_drop_bit 13 p);
                 var2 = signed_drop_bit 19 (scast (dig_P8 s) * p)
             in Some (signed_drop_bit 8 (p + var1 + var2) + push_bit 4 (scast (dig_P7 s))))"

text \<open>
  \<^verbatim>\<open>readPressure\<close>; \<open>None\<close> is the division fault. The result is the exact value of
  \<open>p / 256\<close>; the rounding of \<open>p\<close> to \<^verbatim>\<open>float\<close> is not part of the model.
\<close>

definition readPressure ::
  "'w wire \<Rightarrow> session \<Rightarrow> 'w world \<Rightarrow> (real \<times> session \<times> 'w world) option" where
  "readPressure W s w =
     (case readTemperature W s w of
        (t, s1, w1) \<Rightarrow>
          (case read24 W s1 BMX280_REG_PRESS w1 of
             (raw, w2) \<Rightarrow>
               let adc_P = signed_drop_bit 4 (raw :: i32);
                   var2 = pressure_var2 s1;
                   var1 = pressure_var1 s1
               in if var1 = 0 then Some (0, s1, w2)
                  else (case pressure_p s1 adc_P var1 var2 of
                          None \<Rightarrow> None
                        | Some p \<Rightarrow> Some (real_of_int (sint p) / 256, s1, w2))))"

section \<open>Humidity\<close>

text \<open>The value of \<^verbatim>\<open>v_x1_u32r\<close> in \<^verbatim>\<open>readHumidity\<close> just before the two clamping lines.\<close>

definition humidity_v_x1 :: "session \<Rightarrow> i32 \<Rightarrow> i32" where
  "humidity_v_x1 s adc_H =
     (let v = t_fine s - 76800;
          v = signed_drop_bit 15
                (push_bit 14 adc_H - push_bit 20 (scast (dig_H4 s)) - scast (dig_H5 s) * v
                   + 16384)
              * signed_drop_bit 14
                  ((signed_drop_bit 10
                      (signed_drop_bit 10 (v * scast (dig_H6 s))
                         * (signed_drop_bit 11 (v * ucast (dig_H3 s)) + 32768))
                      + 2097152)
                     * scast (dig_H2 s) + 8192)
      in v - signed_drop_bit 4
               (signed_drop_bit 7 (signed_drop_bit 15 v * signed_drop_bit 15 v)
                  * ucast (dig_H1 s)))"

definition readHumidity :: "'w wire \<Rightarrow> session \<Rightarrow> 'w world \<Rightarrow> real \<times> session \<times> 'w world" where
  "readHumidity W s w =
     (if chipID s \<noteq> CHIP_ID_BME280 then (0, s, w)
      else
        (case readTemperature W s w of
           (t, s1, w1) \<Rightarrow>
             (case read16 W s1 BME280_REG_HUM w1 of
                (raw, w2) \<Rightarrow>
                  let adc_H = ucast raw :: i32;
                      v = humidity_v_x1 s1 adc_H;
                      v = (if v <s 0 then 0 else v);
                      v = (if 419430400 <s v then 419430400 else v);
                      humidity = signed_drop_bit 12 v
                  in (real_of_int (sint humidity) / 1024, s1, w2))))"

section \<open>Calibration coefficients\<close>

text \<open>
  \<^verbatim>\<open>readCoefficients\<close>. The expressions for \<open>dig_H4\<close> and \<open>dig_H5\<close> are computed on
  \<^verbatim>\<open>int\<close> (no operand leaves 13 bits) and stored in an \<^verbatim>\<open>int16_t\<close>; the left
  operand of \<^verbatim>\<open>|\<close> is read first.
\<close>

definition readCoefficients :: "'w wire \<Rightarrow> session \<Rightarrow> 'w world \<Rightarrow> session \<times> 'w world" where
  "readCoefficients W s w =
     (case read16_LE W s BMX280_REG_DIG_T1 w of (t1, w) \<Rightarrow>
      case readS16_LE W s BMX280_REG_DIG_T2 w of (t2, w) \<Rightarrow>
      case readS16_LE W s BMX280_REG_DIG_T3 w of (t3, w) \<Rightarrow>
      case read16_LE W s BMX280_REG_DIG_P1 w of (p1, w) \<Rightarrow>
      case readS16_LE W s BMX280_REG_DIG_P2 w of (p2, w) \<Rightarrow>
      case readS16_LE W s BMX280_REG_DIG_P3 w of (p3, w) \<Rightarrow>
      case readS16_LE W s BMX280_REG_DIG_P4 w of (p4, w) \<Rightarrow>
      case readS16_LE W s BMX280_REG_DIG_P5 w of (p5, w) \<Rightarrow>
      case readS16_LE W s BMX280_REG_DIG_P6 w of (p6, w) \<Rightarrow>
      case readS16_LE W s BMX280_REG_DIG_P7 w of (p7, w) \<Rightarrow>
      case readS16_LE W s BMX280_REG_DIG_P8 w of (p8, w) \<Rightarrow>
      case readS16_LE W s BMX280_REG_DIG_P9 w of (p9, w) \<Rightarrow>
      let s = s\<lparr>dig_T1 := t1, dig_T2 := t2, dig_T3 := t3,
                dig_P1 := p1, dig_P2 := p2, dig_P3 := p3, dig_P4 := p4, dig_P5 := p5,
                dig_P6 := p6, dig_P7 := p7, dig_P8 := p8, dig_P9 := p9\<rparr>
      in if chipID s = CHIP_ID_BME280 then
           (case read8 W s BME280_REG_DIG_H1 w of (h1, w) \<Rightarrow>
            case readS16_LE W s BME280_REG_DIG_H2 w of (h2, w) \<Rightarrow>
            case read8 W s BME280_REG_DIG_H3 w of (h3, w) \<Rightarrow>
            case read8 W s BME280_REG_DIG_H4 w of (h4a, w) \<Rightarrow>
            case read8 W s (BME280_REG_DIG_H4 + 1) w of (h4b, w) \<Rightarrow>
            case read8 W s (BME280_REG_DIG_H5 + 1) w of (h5a, w) \<Rightarrow>
            case read8 W s BME280_REG_DIG_H5 w of (h5b, w) \<Rightarrow>
            case read8 W s BME280_REG_DIG_H6 w of (h6, w) \<Rightarrow>
              (s\<lparr>dig_H1 := h1, dig_H2 := h2, dig_H3 := h3,
                 dig_H4 := word_of_int (push_bit 4 (sint h4a) OR uint (h4b AND 0xF)),
                 dig_H5 := word_of_int (push_bit 4 (sint h5a) OR uint (drop_bit 4 h5b)),
                 dig_H6 := h6\<rparr>, w))
         else (s, w))"

text \<open>
  The register reads of \<^verbatim>\<open>readCoefficients\<close> in program order, each with the number of
  bytes it asks for (the last eight are made on the BME280 only), and the world in which
  read number \<open>k\<close> (from 0) is made when the function starts in \<open>w\<close>: the reads before
  it have been made. The session matters to a read through its bus address only.
\<close>

definition coefficient_reads :: "(u8 \<times> nat) list" where
  "coefficient_reads =
     [(BMX280_REG_DIG_T1, 2), (BMX280_REG_DIG_T2, 2), (BMX280_REG_DIG_T3, 2),
      (BMX280_REG_DIG_P1, 2), (BMX280_REG_DIG_P2, 2), (BMX280_REG_DIG_P3, 2),
      (BMX280_REG_DIG_P4, 2), (BMX280_REG_DIG_P5, 2), (BMX280_REG_DIG_P6, 2),
      (BMX280_REG_DIG_P7, 2), (BMX280_REG_DIG_P8, 2), (BMX280_REG_DIG_P9, 2),
      (BME280_REG_DIG_H1, 1), (BME280_REG_DIG_H2, 2), (BME280_REG_DIG_H3, 1),
      (BME280_REG_DIG_H4, 1), (BME280_REG_DIG_H4 + 1, 1),
      (BME280_REG_DIG_H5 + 1, 1), (BME280_REG_DIG_H5, 1), (BME280_REG_DIG_H6, 1)]"

definition world_before :: "'w wire \<Rightarrow> session \<Rightarrow> 'w world \<Rightarrow> nat \<Rightarrow> 'w world" where
  "world_before W s w k =
     foldl (\<lambda>w (r, n). if n = 2 then snd (read16_LE W s r w) else snd (read8 W s r w))
       w (take k coefficient_reads)"

text \<open>
  The test that ends \<^verbatim>\<open>read8\<close> and \<^verbatim>\<open>read16\<close> early: the transmission of the register
  address ends with a status other than 0.
\<close>

definition read_fails :: "'w wire \<Rightarrow> session \<Rightarrow> u8 \<Rightarrow> 'w world \<Rightarrow> bool" where
  "read_fails W s reg w \<longleftrightarrow> fst (endTransmission W (i2cAddr s) [reg] (bus w)) \<noteq> 0"

section \<open>Configuration\<close>

text \<open>The four enumerations of the header, each with the value of its enumerators.\<close>

datatype BMX280_Mode_e = BMX280_MODE_SLEEP | BMX280_MODE_FORCED | BMX280_MODE_NORMAL

fun Mode_val :: "BMX280_Mode_e \<Rightarrow> int" where
  "Mode_val BMX280_MODE_SLEEP = 0"
| "Mode_val BMX280_MODE_FORCED = 1"
| "Mode_val BMX280_MODE_NORMAL = 3"

datatype BMX280_Sampling_e =
  BMX280_SAMPLING_NONE | BMX280_SAMPLING_X1 | BMX280_SAMPLING_X2
  | BMX280_SAMPLING_X4 | BMX280_SAMPLING_X8 | BMX280_SAMPLING_X16

fun Sampling_val :: "BMX280_Sampling_e \<Rightarrow> int" where
  "Sampling_val BMX280_SAMPLING_NONE = 0"
| "Sampling_val BMX280_SAMPLING_X1 = 1"
| "Sampling_val BMX280_SAMPLING_X2 = 2"
| "Sampling_val BMX280_SAMPLING_X4 = 3"
| "Sampling_val BMX280_SAMPLING_X8 = 4"
| "Sampling_val BMX280_SAMPLING_X16 = 5"

datatype BMX280_Filter_e =
  BMX280_FILTER_OFF | BMX280_FILTER_X2 | BMX280_FILTER_X4 | BMX280_FILTER_X8
  | BMX280_FILTER_X16

fun Filter_val :: "BMX280_Filter_e \<Rightarrow> int" where
  "Filter_val BMX280_FILTER_OFF = 0"
| "Filter_val BMX280_FILTER_X2 = 1"
| "Filter_val BMX280_FILTER_X4 = 2"
| "Filter_val BMX280_FILTER_X8 = 3"
| "Filter_val BMX280_FILTER_X16 = 4"

datatype BMX280_Standby_e =
  BMX280_STANDBY_MS_0_5 | BMX280_STANDBY_MS_10 | BMX280_STANDBY_MS_20
  | BMX280_STANDBY_MS_62_5 | BMX280_STANDBY_MS_125 | BMX280_STANDBY_MS_250
  | BMX280_STANDBY_MS_500 | BMX280_STANDBY_MS_1000

fun Standby_val :: "BMX280_Standby_e \<Rightarrow> int" where
  "Standby_val BMX280_STANDBY_MS_0_5 = 0"
| "Standby_val BMX280_STANDBY_MS_10 = 6"
| "Standby_val BMX280_STANDBY_MS_20 = 7"
| "Standby_val BMX280_STANDBY_MS_62_5 = 1"
| "Standby_val BMX280_STANDBY_MS_125 = 2"
| "Standby_val BMX280_STANDBY_MS_250 = 3"
| "Standby_val BMX280_STANDBY_MS_500 = 4"
| "Standby_val BMX280_STANDBY_MS_1000 = 5"

text \<open>
  \<^verbatim>\<open>setSampling\<close>. The arguments of \<^verbatim>\<open>write8\<close> are \<^verbatim>\<open>int\<close> expressions over the
  enumerators, converted to \<^verbatim>\<open>uint8_t\<close>.
\<close>

definition setSampling ::
  "'w wire \<Rightarrow> session \<Rightarrow> BMX280_Mode_e \<Rightarrow> BMX280_Sampling_e \<Rightarrow> BMX280_Sampling_e \<Rightarrow>
     BMX280_Sampling_e \<Rightarrow> BMX280_Filter_e \<Rightarrow> BMX280_Standby_e \<Rightarrow> 'w world \<Rightarrow> 'w world" where
  "setSampling W s mode tempSampling pressSampling humSampling filter' standbyDuration w =
     (let w = write8 W s BMX280_REG_CTRL_MEAS (word_of_int (Mode_val BMX280_MODE_SLEEP)) w;
          w = (if chipID s = CHIP_ID_BME280
               then write8 W s BME280_REG_CTRL_HUM (word_of_int (Sampling_val humSampling)) w
               else w);
          w = write8 W s BMX280_REG_CONFIG
                (word_of_int (push_bit 5 (Standby_val standbyDuration)
                                OR push_bit 2 (Filter_val filter'))) w
      in write8 W s BMX280_REG_CTRL_MEAS
           (word_of_int (push_bit 5 (Sampling_val tempSampling)
                           OR push_bit 2 (Sampling_val pressSampling)
                           OR Mode_val mode)) w)"

section \<open>Initialization\<close>

text \<open>
  The loop of \<^verbatim>\<open>begin\<close> that waits for the copy of the NVM data: it reads the status
  register and, while bit \<^verbatim>\<open>STATUS_IM_UPDATE\<close> is set, delays 10 ms and reads again. A
  run that never leaves the loop has the value \<open>None\<close>.
\<close>

partial_function (option) wait_im_update ::
  "'w wire \<Rightarrow> session \<Rightarrow> 'w world \<Rightarrow> 'w world option" where
  "wait_im_update W s w =
     (case read8 W s BMX280_REG_STATUS w of
        (st, w1) \<Rightarrow>
          if st AND push_bit STATUS_IM_UPDATE 1 \<noteq> 0
          then wait_im_update W s (delay 10 w1)
          else Some w1)"

declare wait_im_update.simps [code]

text \<open>
  \<^verbatim>\<open>begin\<close> (primed: the name is a keyword here), with the default arguments of
  \<^verbatim>\<open>setSampling\<close> from the header. \<open>None\<close>: the call does not return.
\<close>

definition begin' :: "'w wire \<Rightarrow> session \<Rightarrow> 'w world \<Rightarrow> (bool \<times> session \<times> 'w world) option" where
  "begin' W s w =
     (case read8 W s BME280_REG_CHIPID w of
        (cid, w) \<Rightarrow>
          let s = s\<lparr>chipID := cid\<rparr>
          in if chipID s \<noteq> CHIP_ID_BMP280 \<and> chipID s \<noteq> CHIP_ID_BME280
             then Some (False, s, w)
             else
               let w = write8 W s BME280_REG_RESET RESET_KEY w;
                   w = delay 10 w
               in (case wait_im_update W s w of
                     None \<Rightarrow> None
                   | Some w \<Rightarrow>
                       (case readCoefficients W s w of
                          (s, w) \<Rightarrow>
                            let w = setSampling W s BMX280_MODE_NORMAL BMX280_SAMPLING_X16
                                      BMX280_SAMPLING_X16 BMX280_SAMPLING_X16
                                      BMX280_FILTER_OFF BMX280_STANDBY_MS_0_5 w;
                                w = delay 100 w
                            in Some (True, s, w))))"

section \<open>A simulated sensor\<close>

text \<open>
  To run the driver on concrete inputs: a bus with one device whose registers hold the
  fixed bytes \<open>rg\<close>. Every transmission is acknowledged; its first byte sets the
  register pointer, and what is written after it is dropped. A request for \<open>n\<close> bytes
  delivers the registers from the pointer on, in ascending order.
\<close>

record simstate =
  ptr :: u8
  rx :: "int list"

definition sim_endTransmission :: "u8 \<Rightarrow> u8 list \<Rightarrow> simstate \<Rightarrow> u8 \<times> simstate" where
  "sim_endTransmission a bs d = (case bs of [] \<Rightarrow> (0, d) | r # _ \<Rightarrow> (0, d\<lparr>ptr := r\<rparr>))"

definition sim_requestFrom :: "(u8 \<Rightarrow> u8) \<Rightarrow> u8 \<Rightarrow> nat \<Rightarrow> simstate \<Rightarrow> simstate" where
  "sim_requestFrom rg a n d = d\<lparr>rx := map (\<lambda>i. uint (rg (ptr d + of_nat i))) [0..<n]\<rparr>"

definition sim_read :: "simstate \<Rightarrow> int \<times> simstate" where
  "sim_read d = (case rx d of [] \<Rightarrow> (- 1, d) | x # xs \<Rightarrow> (x, d\<lparr>rx := xs\<rparr>))"

definition sim_wire :: "(u8 \<Rightarrow> u8) \<Rightarrow> simstate wire" where
  "sim_wire rg =
     \<lparr>endTransmission = sim_endTransmission, requestFrom = sim_requestFrom rg,
      wire_read = sim_read\<rparr>"

definition sim_world :: "simstate world" where
  "sim_world = \<lparr>bus = \<lparr>ptr = 0, rx = []\<rparr>, trace = []\<rparr>"

text \<open>
  The same device on a bus that goes dead: the first \<open>acks\<close> transmissions are
  acknowledged, every later one ends with status 2 (address not acknowledged), and a
  request after a failed transmission delivers nothing.
\<close>

record flaky =
  acks :: nat
  linked :: bool
  dev :: simstate

definition flaky_wire :: "(u8 \<Rightarrow> u8) \<Rightarrow> flaky wire" where
  "flaky_wire rg =
     \<lparr>endTransmission = (\<lambda>a bs f.
        case acks f of
          0 \<Rightarrow> (2, f\<lparr>linked := False\<rparr>)
        | Suc k \<Rightarrow> (case sim_endTransmission a bs (dev f) of
                     (st, d) \<Rightarrow> (st, \<lparr>acks = k, linked = True, dev = d\<rparr>))),
      requestFrom = (\<lambda>a n f.
        if linked f then f\<lparr>dev := sim_requestFrom rg a n (dev f)\<rparr>
        else f\<lparr>dev := (dev f)\<lparr>rx := []\<rparr>\<rparr>),
      wire_read = (\<lambda>f. case sim_read (dev f) of (r, d) \<Rightarrow> (r, f\<lparr>dev := d\<rparr>))\<rparr>"

definition flaky_world :: "nat \<Rightarrow> flaky world" where
  "flaky_world n = \<lparr>bus = \<lparr>acks = n, linked = False, dev = \<lparr>ptr = 0, rx = []\<rparr>\<rparr>, trace = []\<rparr>"

text \<open>A driver object as the constructor leaves it, the members it does not set at 0.\<close>

definition ErriezBMX280 :: "u8 \<Rightarrow> session" where
  "ErriezBMX280 a =
     \<lparr>i2cAddr = a, chipID = 0, t_fine = 0,
      dig_T1 = 0, dig_T2 = 0, dig_T3 = 0,
      dig_P1 = 0, dig_P2 = 0, dig_P3 = 0, dig_P4 = 0, dig_P5 = 0, dig_P6 = 0,
      dig_P7 = 0, dig_P8 = 0, dig_P9 = 0,
      dig_H1 = 0, dig_H2 = 0, dig_H3 = 0, dig_H4 = 0, dig_H5 = 0, dig_H6 = 0\<rparr>"

text \<open>
  A register image for running the driver: identity 0x60, status 0, the calibration
  words \<open>T1 = 27504\<close>, \<open>T2 = 26435\<close>, \<open>T3 = -1000\<close>, \<open>P1 = 36477\<close>, \<open>P2 = -10685\<close>,
  \<open>P3 = 3024\<close>, \<open>P4 = 2855\<close>, \<open>P5 = 140\<close>, \<open>P6 = -7\<close>, \<open>P7 = 15500\<close>, \<open>P8 = -14600\<close>,
  \<open>P9 = 6000\<close>, \<open>H1 = 75\<close>, \<open>H2 = 367\<close>, \<open>H3 = 0\<close>, \<open>H4 = 301\<close>, \<open>H5 = 50\<close>,
  \<open>H6 = 30\<close> in the layout of the sensor, and the samples \<open>adc_P = 415148\<close>,
  \<open>adc_T = 519888\<close>, \<open>adc_H = 28672\<close>.
\<close>

definition example_regs :: "u8 \<Rightarrow> u8" where
  "example_regs =
     (\<lambda>_. 0)
       (0x88 := 0x70, 0x89 := 0x6B, 0x8A := 0x43, 0x8B := 0x67, 0x8C := 0x18, 0x8D := 0xFC,
        0x8E := 0x7D, 0x8F := 0x8E, 0x90 := 0x43, 0x91 := 0xD6, 0x92 := 0xD0, 0x93 := 0x0B,
        0x94 := 0x27, 0x95 := 0x0B, 0x96 := 0x8C, 0x97 := 0x00, 0x98 := 0xF9, 0x99 := 0xFF,
        0x9A := 0x8C, 0x9B := 0x3C, 0x9C := 0xF8, 0x9D := 0xC6, 0x9E := 0x70, 0x9F := 0x17,
        0xA1 := 0x4B, 0xE1 := 0x6F, 0xE2 := 0x01, 0xE3 := 0x00, 0xE4 := 0x12, 0xE5 := 0x2D,
        0xE6 := 0x03, 0xE7 := 0x1E,
        0xD0 := 0x60, 0xF3 := 0x00,
        0xF7 := 0x65, 0xF8 := 0x5A, 0xF9 := 0xC0,
        0xFA := 0x7E, 0xFB := 0xED, 0xFC := 0x00,
        0xFD := 0x70, 0xFE := 0x00)"

text \<open>The driver object with these coefficients, at address 0x76.\<close>

definition example_session :: session where
  "example_session =
     \<lparr>i2cAddr = 0x76, chipID = 0x60, t_fine = 0,
      dig_T1 = 27504, dig_T2 = 26435, dig_T3 = - 1000,
      dig_P1 = 36477, dig_P2 = - 10685, dig_P3 = 3024, dig_P4 = 2855, dig_P5 = 140,
      dig_P6 = - 7, dig_P7 = 15500, dig_P8 = - 14600, dig_P9 = 6000,
      dig_H1 = 75, dig_H2 = 367, dig_H3 = 0, dig_H4 = 301, dig_H5 = 50, dig_H6 = 30\<rparr>"

section \<open>The compensation formulas as integer arithmetic\<close>

text \<open>
  The temperature formula as the specification words it, on mathematical integers: every
  operation is that of a signed 32-bit variable, its result brought back into
  \<open>- 2^31 .. 2^31 - 1\<close> by \<open>s32\<close>; \<^verbatim>\<open>>> n\<close> is the division by \<open>2^n\<close> that rounds down.
\<close>

definition s32 :: "int \<Rightarrow> int" where
  "s32 x = (x + 2 ^ 31) mod 2 ^ 32 - 2 ^ 31"

definition spec_adc_T :: "int \<Rightarrow> int" where
  "spec_adc_T raw = raw div 2 ^ 4"

definition spec_var1 :: "int \<Rightarrow> int \<Rightarrow> int \<Rightarrow> int" where
  "spec_var1 adc_T T1 T2 = s32 (s32 (adc_T div 2 ^ 3 - s32 (T1 * 2)) * T2) div 2 ^ 11"

definition spec_var2 :: "int \<Rightarrow> int \<Rightarrow> int \<Rightarrow> int" where
  "spec_var2 adc_T T1 T3 =
     s32 (s32 (s32 (adc_T div 2 ^ 4 - T1) * s32 (adc_T div 2 ^ 4 - T1)) div 2 ^ 12 * T3)
       div 2 ^ 14"

definition spec_fineTemperature :: "int \<Rightarrow> int \<Rightarrow> int \<Rightarrow> int \<Rightarrow> int" where
  "spec_fineTemperature raw T1 T2 T3 =
     s32 (spec_var1 (spec_adc_T raw) T1 T2 + spec_var2 (spec_adc_T raw) T1 T3)"

definition spec_celsius :: "int \<Rightarrow> real" where
  "spec_celsius fineTemperature =
     real_of_int (s32 (s32 (fineTemperature * 5) + 128) div 2 ^ 8) / 100"

text \<open>
  A 16-bit pattern, given as its unsigned value, read as a signed 16-bit integer.
\<close>

definition s16 :: "int \<Rightarrow> int" where
  "s16 x = (x + 2 ^ 15) mod 2 ^ 16 - 2 ^ 15"

text \<open>The clamp of the humidity formula, on integers.\<close>

definition spec_clamp :: "int \<Rightarrow> int" where
  "spec_clamp x = (if x < 0 then 0 else if 419430400 < x then 419430400 else x)"

section \<open>Basic facts\<close>

lemmas reg_defs =
  BMX280_REG_DIG_T1_def BMX280_REG_DIG_T2_def BMX280_REG_DIG_T3_def
  BMX280_REG_DIG_P1_def BMX280_REG_DIG_P2_def BMX280_REG_DIG_P3_def
  BMX280_REG_DIG_P4_def BMX280_REG_DIG_P5_def BMX280_REG_DIG_P6_def
  BMX280_REG_DIG_P7_def BMX280_REG_DIG_P8_def BMX280_REG_DIG_P9_def
  BME280_REG_DIG_H1_def BME280_REG_DIG_H2_def BME280_REG_DIG_H3_def
  BME280_REG_DIG_H4_def BME280_REG_DIG_H5_def BME280_REG_DIG_H6_def
  BME280_REG_CHIPID_def BME280_REG_RESET_def BME280_REG_CTRL_HUM_def
  BMX280_REG_STATUS_def BMX280_REG_CTRL_MEAS_def BMX280_REG_CONFIG_def
  BMX280_REG_PRESS_def BMX280_REG_TEMP_def BME280_REG_HUM_def
  CHIP_ID_BMP280_def CHIP_ID_BME280_def RESET_KEY_def STATUS_IM_UPDATE_def

lemmas sim_defs =
  sim_wire_def sim_endTransmission_def sim_requestFrom_def sim_read_def sim_world_def
  Wire_transmit_def Wire_requestFrom_def Wire_read_def

subsection \<open>What each register access adds to the trace\<close>

lemma trace_write8: "trace (write8 W s r v w) = trace w @ [Transmit (i2cAddr s) [r, v]]"
  by (simp add: write8_def Wire_transmit_def split: prod.splits)

lemma trace_read8:
  "trace (snd (read8 W s r w)) = trace w @ [Transmit (i2cAddr s) [r]]
   \<or> trace (snd (read8 W s r w)) = trace w @ [Transmit (i2cAddr s) [r], Request (i2cAddr s) 1]"
  by (auto simp add: read8_def Wire_transmit_def Wire_requestFrom_def Wire_read_def
      split: prod.splits)

lemma trace_read24:
  "trace (snd (read24 W s r w)) = trace w @ [Transmit (i2cAddr s) [r], Request (i2cAddr s) 3]"
  by (simp add: read24_def Wire_transmit_def Wire_requestFrom_def Wire_read_def
      split: prod.splits)

subsection \<open>Register reads on the simulated sensor\<close>

lemma read8_sim:
  "read8 (sim_wire rg) s r w =
     (rg r, \<lparr>bus = \<lparr>ptr = r, rx = []\<rparr>,
             trace = trace w @ [Transmit (i2cAddr s) [r], Request (i2cAddr s) 1]\<rparr>)"
  by (simp add: read8_def sim_defs)

lemma read24_sim:
  "read24 (sim_wire rg) s r w =
     (push_bit 8 (push_bit 8 (ucast (rg r)) OR ucast (rg (r + 1))) OR ucast (rg (r + 2)),
      \<lparr>bus = \<lparr>ptr = r, rx = []\<rparr>,
       trace = trace w @ [Transmit (i2cAddr s) [r], Request (i2cAddr s) 3]\<rparr>)"
  by (simp add: read24_def sim_defs upt_rec)

lemma read16_sim:
  "read16 (sim_wire rg) s r w =
     (push_bit 8 (ucast (rg r)) OR ucast (rg (r + 1)),
      \<lparr>bus = \<lparr>ptr = r, rx = []\<rparr>,
       trace = trace w @ [Transmit (i2cAddr s) [r], Request (i2cAddr s) 2]\<rparr>)"
  by (simp add: read16_def sim_defs upt_rec of_int_or_eq of_int_push_bit)

lemma example_temperature:
  assumes "rg 0xFA = 0x7E" and "rg 0xFB = 0xED" and "rg 0xFC = 0x00"
  shows "readTemperature (sim_wire rg) example_session sim_world =
   (2508 / 100, example_session\<lparr>t_fine := 128422\<rparr>,
    \<lparr>bus = \<lparr>ptr = 0xFA, rx = []\<rparr>, trace = [Transmit 0x76 [0xFA], Request 0x76 3]\<rparr>)"
  using assms
  by (simp add: readTemperature_def read24_sim example_session_def
      sim_world_def BMX280_REG_TEMP_def)

subsection \<open>Temperature, pressure and the trace\<close>

lemma readTemperature_stale:
  "readTemperature W (s\<lparr>t_fine := x\<rparr>) w = readTemperature W s w"
  by (simp add: readTemperature_def read24_def Let_def split: prod.splits)

lemma readTemperature_trace:
  "readTemperature W s w = (t, s1, w1) \<Longrightarrow>
     trace w1 = trace w @ [Transmit (i2cAddr s) [BMX280_REG_TEMP], Request (i2cAddr s) 3]"
  using trace_read24 [of W s BMX280_REG_TEMP w]
  by (auto simp add: readTemperature_def Let_def split: prod.splits)

lemma readTemperature_addr:
  "readTemperature W s w = (t, s1, w1) \<Longrightarrow> i2cAddr s1 = i2cAddr s \<and> chipID s1 = chipID s"
  by (auto simp add: readTemperature_def Let_def split: prod.splits)

lemma div_i64_None: "div_i64 a b = None \<longleftrightarrow> b = 0"
  by (simp add: div_i64_def)

lemma pressure_p_Some: "var1 \<noteq> 0 \<Longrightarrow> \<exists>p. pressure_p s adc_P var1 var2 = Some p"
  by (simp add: pressure_p_def div_i64_def Let_def)

lemma readPressure_Some:
  assumes "readTemperature W s w = (t, s1, w1)"
    and "read24 W s1 BMX280_REG_PRESS w1 = (raw, w2)"
  shows "\<exists>p. readPressure W s w = Some (p, s1, w2)"
proof (cases "pressure_var1 s1 = 0")
  case True
  then show ?thesis using assms by (simp add: readPressure_def)
next
  case False
  from pressure_p_Some [OF False]
  obtain p where "pressure_p s1 (signed_drop_bit 4 raw) (pressure_var1 s1) (pressure_var2 s1) = Some p"
    by blast
  then have "readPressure W s w = Some (real_of_int (sint p) / 256, s1, w2)"
    using assms False by (simp add: readPressure_def)
  then show ?thesis by blast
qed

lemma readPressure_stale:
  "readPressure W (s\<lparr>t_fine := x\<rparr>) w = readPressure W s w"
  by (simp add: readPressure_def readTemperature_stale)

lemma readHumidity_stale:
  "chipID s = CHIP_ID_BME280 \<Longrightarrow> readHumidity W (s\<lparr>t_fine := x\<rparr>) w = readHumidity W s w"
  by (simp add: readHumidity_def readTemperature_stale)

lemma trace_read16:
  "trace (snd (read16 W s r w)) = trace w @ [Transmit (i2cAddr s) [r]]
   \<or> trace (snd (read16 W s r w)) = trace w @ [Transmit (i2cAddr s) [r], Request (i2cAddr s) 2]"
  by (auto simp add: read16_def Wire_transmit_def Wire_requestFrom_def Wire_read_def
      split: prod.splits)

lemma signed_asr12:
  fixes v :: i32
  shows "(signed (signed_drop_bit 12 v) :: real) = real_of_int (sint v div 2 ^ 12)"
proof -
  have "(signed (signed_drop_bit 12 v) :: real) = real_of_int (sint (signed_drop_bit 12 v))"
    by (simp only: of_int_sint)
  then show ?thesis
    by (simp only: sint_signed_drop_bit_eq drop_bit_eq_div)
qed

subsection \<open>Signed 32-bit arithmetic on integers\<close>

lemma s32_signed_take_bit: "s32 x = signed_take_bit 31 x"
  by (simp add: s32_def signed_take_bit_eq_take_bit_shift take_bit_eq_mod)

lemma sint_add32: "sint (a + b :: i32) = s32 (sint a + sint b)"
  by (simp add: sint_word_add s32_signed_take_bit)

lemma sint_sub32: "sint (a - b :: i32) = s32 (sint a - sint b)"
  by (simp add: sint_word_diff s32_signed_take_bit)

lemma sint_mult32: "sint (a * b :: i32) = s32 (sint a * sint b)"
  by (simp add: sint_word_mult s32_signed_take_bit)

lemma sint_asr32: "sint (signed_drop_bit n (a :: i32)) = sint a div 2 ^ n"
  by (simp add: sint_signed_drop_bit_eq drop_bit_eq_div)

lemma sint_ucast_16_32: "sint (ucast (x :: u16) :: i32) = uint x"
proof -
  have "uint x < 2 ^ 16" using uint_bounded [of x] by simp
  then have "uint x < 2 ^ 31" by simp
  moreover have "- (2 ^ 31) \<le> uint x" by (simp add: order_trans [of _ 0])
  ultimately have "signed_take_bit 31 (uint x) = uint x"
    by (simp add: signed_take_bit_int_eq_self)
  then show ?thesis
    using signed_ucast_eq [where 'a = int and 'c = 32 and w = x] by simp
qed

lemma sint_scast_16_32: "sint (scast (x :: i16) :: i32) = sint x"
  by (simp add: sint_up_scast is_up)

lemma sint_shl1_32: "sint (push_bit 1 (a :: i32)) = s32 (sint a * 2)"
  by (simp add: push_bit_eq_mult sint_mult32)

lemma sint_raw24:
  assumes "uint (raw :: u32) < 2 ^ 24"
  shows "sint raw = uint raw"
proof -
  have "uint raw < 2 ^ 31" using assms by simp
  moreover have "- (2 ^ 31) \<le> uint raw" by (simp add: order_trans [of _ 0])
  ultimately have "signed_take_bit 31 (uint raw) = uint raw"
    by (simp add: signed_take_bit_int_eq_self)
  then show ?thesis by (simp add: sint_uint)
qed

lemma sint_word_of_int_s32: "sint (word_of_int (s32 x) :: i32) = s32 x"
  by (simp add: sint_sbintrunc' s32_signed_take_bit)

lemma sint_scale_celsius:
  "sint (signed_drop_bit 8 (x * 5 + 128 :: i32)) = s32 (s32 (sint x * 5) + 128) div 2 ^ 8"
proof -
  have five: "sint (5 :: i32) = 5" and c128: "sint (128 :: i32) = 128" by simp_all
  show ?thesis
    by (simp only: sint_asr32 sint_add32 sint_mult32 five c128)
qed

subsection \<open>Bytes, nibbles and 16-bit words\<close>

lemma swap16:
  fixes hi lo :: u8
  shows "drop_bit 8 (push_bit 8 (ucast hi) OR ucast lo :: u16) OR push_bit 8 (push_bit 8 (ucast hi) OR ucast lo)
     = push_bit 8 (ucast lo) OR ucast hi"
  by (rule bit_word_eqI) (auto simp add: bit_simps dest: bit_imp_le_length)

lemma read16_LE_sim:
  "read16_LE (sim_wire rg) s r w =
     (push_bit 8 (ucast (rg (r + 1))) OR ucast (rg r),
      \<lparr>bus = \<lparr>ptr = r, rx = []\<rparr>,
       trace = trace w @ [Transmit (i2cAddr s) [r], Request (i2cAddr s) 2]\<rparr>)"
  using swap16 [of "rg r" "rg (r + 1)"]
  by (simp add: read16_LE_def read16_sim)

lemma or_push_bit_int:
  fixes h l :: int
  assumes "0 \<le> l" and "l < 2 ^ n"
  shows "push_bit n h OR l = l + 2 ^ n * h"
proof -
  have "push_bit n h OR l = take_bit n l OR push_bit n h"
    using assms by (simp add: take_bit_int_eq_self or.commute)
  also have "\<dots> = take_bit n l + push_bit n h"
    by (simp only: concat_bit_def [symmetric] concat_bit_eq)
  also have "\<dots> = l + 2 ^ n * h"
    using assms by (simp add: take_bit_int_eq_self push_bit_eq_mult)
  finally show ?thesis .
qed

lemma uint_byte: "0 \<le> uint (b :: u8) \<and> uint b < 2 ^ 8"
  using uint_bounded [of b] by simp

lemma uint_cat16:
  fixes hi lo :: u8
  shows "uint (push_bit 8 (ucast hi) OR ucast lo :: u16) = uint lo + 256 * uint hi"
proof -
  have lo: "uint (ucast lo :: u16) = uint lo"
    by (simp add: uint_up_ucast is_up)
  have "uint hi * 256 < 2 ^ 16" using uint_byte [of hi] by simp
  moreover have "uint (push_bit 8 (ucast hi :: u16)) = take_bit 16 (push_bit 8 (uint (ucast hi :: u16)))"
    using unsigned_push_bit_eq [where 'a = int and 'b = 16 and n = 8 and w = "ucast hi :: u16"]
    by simp
  ultimately have hi: "uint (push_bit 8 (ucast hi :: u16)) = push_bit 8 (uint hi)"
    by (simp add: uint_up_ucast is_up take_bit_int_eq_self push_bit_eq_mult)
  show ?thesis
    using or_push_bit_int [of "uint lo" 8 "uint hi"] uint_byte [of lo]
    by (simp add: uint_or lo hi)
qed

lemma sint_s16: "sint (x :: i16) = s16 (uint x)"
  by (simp add: sint_uint s16_def signed_take_bit_eq_take_bit_shift take_bit_eq_mod)

lemma sint_word_of_int_16:
  assumes "- (2 ^ 15) \<le> x" and "x < 2 ^ 15"
  shows "sint (word_of_int x :: i16) = x"
  using assms by (simp add: sint_sbintrunc' signed_take_bit_int_eq_self)

lemma sint_byte: "- (2 ^ 7) \<le> sint (b :: u8) \<and> sint b < 2 ^ 7"
  using sint_ge [of b] sint_lt [of b] by simp

lemma sint_H:
  fixes a b :: u8
  assumes "uint b < 2 ^ 4"
  shows "sint (word_of_int (push_bit 4 (sint a) OR uint b) :: i16) = push_bit 4 (sint a) OR uint b"
proof -
  have e: "push_bit 4 (sint a) OR uint b = uint b + 2 ^ 4 * sint a"
    using or_push_bit_int [of "uint b" 4 "sint a"] assms by simp
  have b0: "0 \<le> uint b" by simp
  have b1: "uint b < 16" using assms by simp
  have a0: "- 128 \<le> sint a" and a1: "sint a < 128" using sint_byte [of a] by simp_all
  have lo: "- 32768 \<le> uint b + 16 * sint a" using b0 a0 by linarith
  have hi: "uint b + 16 * sint a < 32768" using b1 a1 by linarith
  show ?thesis
    unfolding e using lo hi by (intro sint_word_of_int_16) simp_all
qed

lemma nibble_lo: "uint ((b :: u8) AND 0xF) < 2 ^ 4"
proof -
  have "uint b AND 15 \<le> 15" by (rule AND_upper2) simp
  then show ?thesis by (simp add: uint_and)
qed

lemma nibble_hi: "uint (drop_bit 4 (b :: u8)) < 2 ^ 4"
proof -
  have "take_bit 8 (uint b) = uint b"
    using uint_byte [of b] by (intro take_bit_int_eq_self) simp_all
  then have "uint (drop_bit 4 b) = uint b div 2 ^ 4"
    using unsigned_drop_bit_eq [where 'a = int and n = 4 and w = b]
    by (simp add: drop_bit_eq_div)
  then show ?thesis using uint_byte [of b] by simp
qed

subsection \<open>The polling loop and the steps of initialization\<close>

lemma read8_addr: "i2cAddr s' = i2cAddr s \<Longrightarrow> read8 W s' r w = read8 W s r w"
  by (simp add: read8_def cong: if_cong)



lemma begin_recognised:
  assumes "read8 W s BME280_REG_CHIPID w = (cid, w1)"
    and "cid = CHIP_ID_BMP280 \<or> cid = CHIP_ID_BME280"
  shows "begin' W s w =
     (case wait_im_update W (s\<lparr>chipID := cid\<rparr>)
             (delay 10 (write8 W (s\<lparr>chipID := cid\<rparr>) BME280_REG_RESET RESET_KEY w1)) of
        None \<Rightarrow> None
      | Some w2 \<Rightarrow>
          Some (True, fst (readCoefficients W (s\<lparr>chipID := cid\<rparr>) w2),
                delay 100
                  (setSampling W (fst (readCoefficients W (s\<lparr>chipID := cid\<rparr>) w2))
                     BMX280_MODE_NORMAL BMX280_SAMPLING_X16 BMX280_SAMPLING_X16
                     BMX280_SAMPLING_X16 BMX280_FILTER_OFF BMX280_STANDBY_MS_0_5
                     (snd (readCoefficients W (s\<lparr>chipID := cid\<rparr>) w2)))))"
  using assms
  by (auto simp add: begin'_def Let_def split: option.splits prod.splits)

subsection \<open>What the coefficient reads store\<close>

lemma read_fails_zero:
  assumes "read_fails W s r w"
  shows "fst (read8 W s r w) = 0" and "fst (read16 W s r w) = 0"
    and "fst (read16_LE W s r w) = 0" and "fst (readS16_LE W s r w) = 0"
  using assms
  by (auto simp add: read_fails_def read8_def read16_def read16_LE_def readS16_LE_def
      Wire_transmit_def split: prod.splits)

lemma read16_LE_addr: "i2cAddr s' = i2cAddr s \<Longrightarrow> read16_LE W s' r w = read16_LE W s r w"
  by (simp add: read16_LE_def read16_def cong: if_cong)

lemma world_before_steps:
  "world_before W s w 0 = w"
  "world_before W s w 1 = snd (read16_LE W s BMX280_REG_DIG_T1 (world_before W s w 0))"
  "world_before W s w 2 = snd (read16_LE W s BMX280_REG_DIG_T2 (world_before W s w 1))"
  "world_before W s w 3 = snd (read16_LE W s BMX280_REG_DIG_T3 (world_before W s w 2))"
  "world_before W s w 4 = snd (read16_LE W s BMX280_REG_DIG_P1 (world_before W s w 3))"
  "world_before W s w 5 = snd (read16_LE W s BMX280_REG_DIG_P2 (world_before W s w 4))"
  "world_before W s w 6 = snd (read16_LE W s BMX280_REG_DIG_P3 (world_before W s w 5))"
  "world_before W s w 7 = snd (read16_LE W s BMX280_REG_DIG_P4 (world_before W s w 6))"
  "world_before W s w 8 = snd (read16_LE W s BMX280_REG_DIG_P5 (world_before W s w 7))"
  "world_before W s w 9 = snd (read16_LE W s BMX280_REG_DIG_P6 (world_before W s w 8))"
  "world_before W s w 10 = snd (read16_LE W s BMX280_REG_DIG_P7 (world_before W s w 9))"
  "world_before W s w 11 = snd (read16_LE W s BMX280_REG_DIG_P8 (world_before W s w 10))"
  "world_before W s w 12 = snd (read16_LE W s BMX280_REG_DIG_P9 (world_before W s w 11))"
  "world_before W s w 13 = snd (read8 W s BME280_REG_DIG_H1 (world_before W s w 12))"
  "world_before W s w 14 = snd (read16_LE W s BME280_REG_DIG_H2 (world_before W s w 13))"
  "world_before W s w 15 = snd (read8 W s BME280_REG_DIG_H3 (world_before W s w 14))"
  "world_before W s w 16 = snd (read8 W s BME280_REG_DIG_H4 (world_before W s w 15))"
  "world_before W s w 17 = snd (read8 W s (BME280_REG_DIG_H4 + 1) (world_before W s w 16))"
  "world_before W s w 18 = snd (read8 W s (BME280_REG_DIG_H5 + 1) (world_before W s w 17))"
  "world_before W s w 19 = snd (read8 W s BME280_REG_DIG_H5 (world_before W s w 18))"
  by (simp_all add: world_before_def coefficient_reads_def)

lemma readCoefficients_stores:
  assumes "readCoefficients W s w = (s', w')"
  shows "(dig_T1 s' = fst (read16_LE W s BMX280_REG_DIG_T1 (world_before W s w 0))
    \<and> dig_T2 s' = fst (readS16_LE W s BMX280_REG_DIG_T2 (world_before W s w 1))
    \<and> dig_T3 s' = fst (readS16_LE W s BMX280_REG_DIG_T3 (world_before W s w 2))
    \<and> dig_P1 s' = fst (read16_LE W s BMX280_REG_DIG_P1 (world_before W s w 3))
    \<and> dig_P2 s' = fst (readS16_LE W s BMX280_REG_DIG_P2 (world_before W s w 4))
    \<and> dig_P3 s' = fst (readS16_LE W s BMX280_REG_DIG_P3 (world_before W s w 5))
    \<and> dig_P4 s' = fst (readS16_LE W s BMX280_REG_DIG_P4 (world_before W s w 6))
    \<and> dig_P5 s' = fst (readS16_LE W s BMX280_REG_DIG_P5 (world_before W s w 7))
    \<and> dig_P6 s' = fst (readS16_LE W s BMX280_REG_DIG_P6 (world_before W s w 8))
    \<and> dig_P7 s' = fst (readS16_LE W s BMX280_REG_DIG_P7 (world_before W s w 9))
    \<and> dig_P8 s' = fst (readS16_LE W s BMX280_REG_DIG_P8 (world_before W s w 10))
    \<and> dig_P9 s' = fst (readS16_LE W s BMX280_REG_DIG_P9 (world_before W s w 11)))
    \<and> (chipID s = CHIP_ID_BME280 \<longrightarrow>
         dig_H1 s' = fst (read8 W s BME280_REG_DIG_H1 (world_before W s w 12))
         \<and> dig_H2 s' = fst (readS16_LE W s BME280_REG_DIG_H2 (world_before W s w 13))
         \<and> dig_H3 s' = fst (read8 W s BME280_REG_DIG_H3 (world_before W s w 14))
         \<and> dig_H4 s' = word_of_int
                (push_bit 4 (sint (fst (read8 W s BME280_REG_DIG_H4 (world_before W s w 15))))
                 OR uint (fst (read8 W s (BME280_REG_DIG_H4 + 1) (world_before W s w 16)) AND 0xF))
         \<and> dig_H5 s' = word_of_int
                (push_bit 4 (sint (fst (read8 W s (BME280_REG_DIG_H5 + 1) (world_before W s w 17))))
                 OR uint (drop_bit 4 (fst (read8 W s BME280_REG_DIG_H5 (world_before W s w 18)))))
         \<and> dig_H6 s' = fst (read8 W s BME280_REG_DIG_H6 (world_before W s w 19)))
    \<and> (chipID s \<noteq> CHIP_ID_BME280 \<longrightarrow>
         dig_H1 s' = dig_H1 s
         \<and> dig_H2 s' = dig_H2 s
         \<and> dig_H3 s' = dig_H3 s
         \<and> dig_H4 s' = dig_H4 s
         \<and> dig_H5 s' = dig_H5 s
         \<and> dig_H6 s' = dig_H6 s)"
proof -
  define base where "base =
     s\<lparr>dig_T1 := fst (read16_LE W s BMX280_REG_DIG_T1 (world_before W s w 0)),
       dig_T2 := fst (read16_LE W s BMX280_REG_DIG_T2 (world_before W s w 1)),
       dig_T3 := fst (read16_LE W s BMX280_REG_DIG_T3 (world_before W s w 2)),
       dig_P1 := fst (read16_LE W s BMX280_REG_DIG_P1 (world_before W s w 3)),
       dig_P2 := fst (read16_LE W s BMX280_REG_DIG_P2 (world_before W s w 4)),
       dig_P3 := fst (read16_LE W s BMX280_REG_DIG_P3 (world_before W s w 5)),
       dig_P4 := fst (read16_LE W s BMX280_REG_DIG_P4 (world_before W s w 6)),
       dig_P5 := fst (read16_LE W s BMX280_REG_DIG_P5 (world_before W s w 7)),
       dig_P6 := fst (read16_LE W s BMX280_REG_DIG_P6 (world_before W s w 8)),
       dig_P7 := fst (read16_LE W s BMX280_REG_DIG_P7 (world_before W s w 9)),
       dig_P8 := fst (read16_LE W s BMX280_REG_DIG_P8 (world_before W s w 10)),
       dig_P9 := fst (read16_LE W s BMX280_REG_DIG_P9 (world_before W s w 11))\<rparr>"
  have a8: "read8 W base r x = read8 W s r x" for r x
    by (rule read8_addr) (simp add: base_def)
  have a16: "read16_LE W base r x = read16_LE W s r x" for r x
    by (rule read16_LE_addr) (simp add: base_def)
  have c: "chipID base = chipID s" by (simp add: base_def)
  have R: "readCoefficients W s w =
     (if chipID base = CHIP_ID_BME280 then
        (case read8 W base BME280_REG_DIG_H1 (world_before W s w 12) of (h1, w) \<Rightarrow>
         case readS16_LE W base BME280_REG_DIG_H2 w of (h2, w) \<Rightarrow>
         case read8 W base BME280_REG_DIG_H3 w of (h3, w) \<Rightarrow>
         case read8 W base BME280_REG_DIG_H4 w of (h4a, w) \<Rightarrow>
         case read8 W base (BME280_REG_DIG_H4 + 1) w of (h4b, w) \<Rightarrow>
         case read8 W base (BME280_REG_DIG_H5 + 1) w of (h5a, w) \<Rightarrow>
         case read8 W base BME280_REG_DIG_H5 w of (h5b, w) \<Rightarrow>
         case read8 W base BME280_REG_DIG_H6 w of (h6, w) \<Rightarrow>
           (base\<lparr>dig_H1 := h1, dig_H2 := h2, dig_H3 := h3,
              dig_H4 := word_of_int (push_bit 4 (sint h4a) OR uint (h4b AND 0xF)),
              dig_H5 := word_of_int (push_bit 4 (sint h5a) OR uint (drop_bit 4 h5b)),
              dig_H6 := h6\<rparr>, w))
      else (base, world_before W s w 12))"
    by (simp add: readCoefficients_def readS16_LE_def world_before_steps base_def
        case_prod_beta Let_def del: One_nat_def)
  have S: "s' = (if chipID s = CHIP_ID_BME280 then
       base\<lparr>dig_H1 := fst (read8 W s BME280_REG_DIG_H1 (world_before W s w 12)),
         dig_H2 := fst (read16_LE W s BME280_REG_DIG_H2 (world_before W s w 13)),
         dig_H3 := fst (read8 W s BME280_REG_DIG_H3 (world_before W s w 14)),
         dig_H4 := word_of_int
            (push_bit 4 (sint (fst (read8 W s BME280_REG_DIG_H4 (world_before W s w 15))))
             OR uint (fst (read8 W s (BME280_REG_DIG_H4 + 1) (world_before W s w 16)) AND 0xF)),
         dig_H5 := word_of_int
            (push_bit 4 (sint (fst (read8 W s (BME280_REG_DIG_H5 + 1) (world_before W s w 17))))
             OR uint (drop_bit 4 (fst (read8 W s BME280_REG_DIG_H5 (world_before W s w 18))))),
         dig_H6 := fst (read8 W s BME280_REG_DIG_H6 (world_before W s w 19))\<rparr>
     else base)"
    using assms unfolding R
    by (auto simp add: a8 a16 c readS16_LE_def world_before_steps case_prod_beta
        simp del: One_nat_def)
  show ?thesis
    unfolding S by (simp add: base_def readS16_LE_def)
qed

section \<open>Humidity on the variant without a humidity sensor\<close>

text \<open>
  C10. When the chip identity kept in the driver object is not that of the BME280,
  \<^verbatim>\<open>readHumidity\<close> returns 0 and leaves both the driver object (so also the fine
  temperature) and the world as they were: no bus transaction, no register read.
\<close>

theorem readHumidity_other_variant:
  "chipID s \<noteq> CHIP_ID_BME280 \<Longrightarrow> readHumidity W s w = (0, s, w)"
  by (simp add: readHumidity_def)

theorem readHumidity_other_variant_witness:
  "chipID ((ErriezBMX280 0x76)\<lparr>chipID := 0x58, t_fine := 128422\<rparr>) \<noteq> CHIP_ID_BME280
   \<and> readHumidity (sim_wire (\<lambda>_. 0x80))
         ((ErriezBMX280 0x76)\<lparr>chipID := 0x58, t_fine := 128422\<rparr>) sim_world
       = (0, (ErriezBMX280 0x76)\<lparr>chipID := 0x58, t_fine := 128422\<rparr>, sim_world)"
  using readHumidity_other_variant
    [of "(ErriezBMX280 0x76)\<lparr>chipID := 0x58, t_fine := 128422\<rparr>"
        "sim_wire (\<lambda>_. 0x80)" sim_world]
  by (simp add: ErriezBMX280_def CHIP_ID_BME280_def)

section \<open>Initialization with an unrecognised identity\<close>

text \<open>
  C7. When the read of the identity register yields a byte that is neither 0x58 nor
  0x60, \<^verbatim>\<open>begin\<close> returns false at once. The world it returns is the one the identity
  read left, whose trace has grown by that read alone: nothing was written to the reset
  register, the status register was not polled, no coefficient was read and no
  configuration was written. The driver object has changed in its chip identity only.
\<close>

theorem begin_unrecognised:
  assumes "read8 W s BME280_REG_CHIPID w = (cid, w1)"
    and "cid \<noteq> CHIP_ID_BMP280" and "cid \<noteq> CHIP_ID_BME280"
  shows "begin' W s w = Some (False, s\<lparr>chipID := cid\<rparr>, w1)
    \<and> (trace w1 = trace w @ [Transmit (i2cAddr s) [BME280_REG_CHIPID]]
       \<or> trace w1 = trace w @ [Transmit (i2cAddr s) [BME280_REG_CHIPID],
                                Request (i2cAddr s) 1])"
proof -
  have "begin' W s w = Some (False, s\<lparr>chipID := cid\<rparr>, w1)"
    using assms by (simp add: begin'_def)
  moreover have "trace w1 = trace w @ [Transmit (i2cAddr s) [BME280_REG_CHIPID]]
       \<or> trace w1 = trace w @ [Transmit (i2cAddr s) [BME280_REG_CHIPID],
                                Request (i2cAddr s) 1]"
    using trace_read8 [of W s BME280_REG_CHIPID w] assms(1) by simp
  ultimately show ?thesis by simp
qed

theorem begin_unrecognised_witness:
  "read8 (sim_wire (\<lambda>_. 0)) (ErriezBMX280 0x76) BME280_REG_CHIPID sim_world
     = (0, \<lparr>bus = \<lparr>ptr = 0xD0, rx = []\<rparr>,
            trace = [Transmit 0x76 [0xD0], Request 0x76 1]\<rparr>)
   \<and> (0 :: u8) \<noteq> CHIP_ID_BMP280 \<and> (0 :: u8) \<noteq> CHIP_ID_BME280
   \<and> begin' (sim_wire (\<lambda>_. 0)) (ErriezBMX280 0x76) sim_world
     = Some (False, ErriezBMX280 0x76,
             \<lparr>bus = \<lparr>ptr = 0xD0, rx = []\<rparr>,
              trace = [Transmit 0x76 [0xD0], Request 0x76 1]\<rparr>)"
proof -
  have r: "read8 (sim_wire (\<lambda>_. 0)) (ErriezBMX280 0x76) BME280_REG_CHIPID sim_world
     = (0, \<lparr>bus = \<lparr>ptr = 0xD0, rx = []\<rparr>,
            trace = [Transmit 0x76 [0xD0], Request 0x76 1]\<rparr>)"
    by (simp add: read8_sim) (simp add: ErriezBMX280_def sim_world_def BME280_REG_CHIPID_def)
  have a: "(0 :: u8) \<noteq> CHIP_ID_BMP280" and b: "(0 :: u8) \<noteq> CHIP_ID_BME280"
    by (simp_all add: CHIP_ID_BMP280_def CHIP_ID_BME280_def)
  show ?thesis
    using begin_unrecognised [OF r a b] r a b by (simp add: ErriezBMX280_def)
qed

section \<open>Order and content of the configuration writes\<close>

text \<open>
  C6. For all arguments, \<^verbatim>\<open>setSampling\<close> adds to the trace exactly these
  transmissions, in this order: the control-measurement register with the value of sleep
  mode; then, only when the chip identity is that of the BME280, the humidity control
  register with the code of the humidity oversampling; then the config register with
  \<open>(standby << 5) | (filter << 2)\<close>; then the control-measurement register with
  \<open>(temperature oversampling << 5) | (pressure oversampling << 2) | mode\<close>. Standby
  500 ms with filter x16 packs to 0x90.
\<close>

theorem setSampling_writes:
  "trace (setSampling W s mode tempSampling pressSampling humSampling filter' standbyDuration w) =
     trace w
     @ [Transmit (i2cAddr s) [BMX280_REG_CTRL_MEAS, word_of_int (Mode_val BMX280_MODE_SLEEP)]]
     @ (if chipID s = CHIP_ID_BME280
        then [Transmit (i2cAddr s) [BME280_REG_CTRL_HUM, word_of_int (Sampling_val humSampling)]]
        else [])
     @ [Transmit (i2cAddr s)
          [BMX280_REG_CONFIG,
           word_of_int (push_bit 5 (Standby_val standbyDuration) OR push_bit 2 (Filter_val filter'))],
        Transmit (i2cAddr s)
          [BMX280_REG_CTRL_MEAS,
           word_of_int (push_bit 5 (Sampling_val tempSampling)
                          OR push_bit 2 (Sampling_val pressSampling) OR Mode_val mode)]]
   \<and> (word_of_int (push_bit 5 (Standby_val BMX280_STANDBY_MS_500)
                       OR push_bit 2 (Filter_val BMX280_FILTER_X16)) :: u8) = 0x90"
  by (simp add: setSampling_def trace_write8 Let_def)

theorem setSampling_writes_witness:
  "trace (setSampling (sim_wire (\<lambda>_. 0)) ((ErriezBMX280 0x76)\<lparr>chipID := 0x60\<rparr>)
            BMX280_MODE_NORMAL BMX280_SAMPLING_X16 BMX280_SAMPLING_X16 BMX280_SAMPLING_X16
            BMX280_FILTER_OFF BMX280_STANDBY_MS_0_5 sim_world)
     = [Transmit 0x76 [0xF4, 0x00], Transmit 0x76 [0xF2, 0x05],
        Transmit 0x76 [0xF5, 0x00], Transmit 0x76 [0xF4, 0xB7]]
   \<and> trace (setSampling (sim_wire (\<lambda>_. 0)) ((ErriezBMX280 0x76)\<lparr>chipID := 0x58\<rparr>)
            BMX280_MODE_FORCED BMX280_SAMPLING_X1 BMX280_SAMPLING_X2 BMX280_SAMPLING_X4
            BMX280_FILTER_X16 BMX280_STANDBY_MS_500 sim_world)
     = [Transmit 0x76 [0xF4, 0x00], Transmit 0x76 [0xF5, 0x90], Transmit 0x76 [0xF4, 0x29]]"
  using setSampling_writes
    [of "sim_wire (\<lambda>_. 0)" "(ErriezBMX280 0x76)\<lparr>chipID := 0x60\<rparr>"
        BMX280_MODE_NORMAL BMX280_SAMPLING_X16 BMX280_SAMPLING_X16 BMX280_SAMPLING_X16
        BMX280_FILTER_OFF BMX280_STANDBY_MS_0_5 sim_world]
    setSampling_writes
    [of "sim_wire (\<lambda>_. 0)" "(ErriezBMX280 0x76)\<lparr>chipID := 0x58\<rparr>"
        BMX280_MODE_FORCED BMX280_SAMPLING_X1 BMX280_SAMPLING_X2 BMX280_SAMPLING_X4
        BMX280_FILTER_X16 BMX280_STANDBY_MS_500 sim_world]
  by (simp add: ErriezBMX280_def sim_world_def reg_defs)

section \<open>The zero guard of the pressure formula\<close>

text \<open>
  C2. In \<^verbatim>\<open>readPressure\<close>, with \<open>v = fineTemperature - 128000\<close> in 64 bits, the tested
  value is \<open>var1 = ((1 << 47) + (((v * v * P3) >> 8) + ((v * P2) << 12))) * P1 >> 33\<close>.
  When it is zero the function returns 0 at once; when it is not zero the division by
  \<open>var1\<close> is made and yields a value, from which the result is computed. So the call
  never ends in the division fault, for any bus and any driver object; and the division
  faults for a zero divisor only.
\<close>

theorem readPressure_zero_guard:
  assumes "readTemperature W s w = (t, s1, w1)"
    and "read24 W s1 BMX280_REG_PRESS w1 = (raw, w2)"
  shows "pressure_var1 s1 =
           signed_drop_bit 33
             ((push_bit 47 1
                + (signed_drop_bit 8
                     ((scast (t_fine s1) - 128000) * (scast (t_fine s1) - 128000) * scast (dig_P3 s1))
                   + push_bit 12 ((scast (t_fine s1) - 128000) * scast (dig_P2 s1))))
              * ucast (dig_P1 s1))
    \<and> (pressure_var1 s1 = 0 \<longrightarrow> readPressure W s w = Some (0, s1, w2))
    \<and> (pressure_var1 s1 \<noteq> 0 \<longrightarrow>
         (\<exists>q p. div_i64 ((push_bit 31 (scast (1048576 - signed_drop_bit 4 raw)) - pressure_var2 s1) * 3125)
                  (pressure_var1 s1) = Some q
            \<and> pressure_p s1 (signed_drop_bit 4 raw) (pressure_var1 s1) (pressure_var2 s1) = Some p
            \<and> readPressure W s w = Some (real_of_int (sint p) / 256, s1, w2)))
    \<and> readPressure W s w \<noteq> None
    \<and> (\<forall>a b. div_i64 a b = None \<longleftrightarrow> b = 0)"
proof -
  have A: "pressure_var1 s1 =
           signed_drop_bit 33
             ((push_bit 47 1
                + (signed_drop_bit 8
                     ((scast (t_fine s1) - 128000) * (scast (t_fine s1) - 128000) * scast (dig_P3 s1))
                   + push_bit 12 ((scast (t_fine s1) - 128000) * scast (dig_P2 s1))))
              * ucast (dig_P1 s1))"
    by (simp add: pressure_var1_def Let_def)
  have B: "pressure_var1 s1 = 0 \<longrightarrow> readPressure W s w = Some (0, s1, w2)"
    using assms by (simp add: readPressure_def)
  have C: "pressure_var1 s1 \<noteq> 0 \<longrightarrow>
         (\<exists>q p. div_i64 ((push_bit 31 (scast (1048576 - signed_drop_bit 4 raw)) - pressure_var2 s1) * 3125)
                  (pressure_var1 s1) = Some q
            \<and> pressure_p s1 (signed_drop_bit 4 raw) (pressure_var1 s1) (pressure_var2 s1) = Some p
            \<and> readPressure W s w = Some (real_of_int (sint p) / 256, s1, w2))"
    using assms by (simp add: readPressure_def pressure_p_def div_i64_def Let_def)
  have D: "readPressure W s w \<noteq> None"
    using readPressure_Some [OF assms] by auto
  show ?thesis using A B C D div_i64_None by blast
qed

theorem readPressure_zero_guard_witness:
  "readTemperature (sim_wire example_regs) (example_session\<lparr>dig_P1 := 0\<rparr>) sim_world
     = (2508 / 100, example_session\<lparr>dig_P1 := 0, t_fine := 128422\<rparr>,
        \<lparr>bus = \<lparr>ptr = 0xFA, rx = []\<rparr>, trace = [Transmit 0x76 [0xFA], Request 0x76 3]\<rparr>)
   \<and> pressure_var1 (example_session\<lparr>dig_P1 := 0, t_fine := 128422\<rparr>) = 0
   \<and> readPressure (sim_wire example_regs) (example_session\<lparr>dig_P1 := 0\<rparr>) sim_world
     = Some (0, example_session\<lparr>dig_P1 := 0, t_fine := 128422\<rparr>,
             \<lparr>bus = \<lparr>ptr = 0xF7, rx = []\<rparr>,
              trace = [Transmit 0x76 [0xFA], Request 0x76 3,
                       Transmit 0x76 [0xF7], Request 0x76 3]\<rparr>)
   \<and> pressure_var1 (example_session\<lparr>t_fine := 128422\<rparr>) \<noteq> 0
   \<and> readPressure (sim_wire example_regs) example_session sim_world
     = Some (25767233 / 256, example_session\<lparr>t_fine := 128422\<rparr>,
             \<lparr>bus = \<lparr>ptr = 0xF7, rx = []\<rparr>,
              trace = [Transmit 0x76 [0xFA], Request 0x76 3,
                       Transmit 0x76 [0xF7], Request 0x76 3]\<rparr>)"
proof -
  let ?w1 = "\<lparr>bus = \<lparr>ptr = 0xFA, rx = []\<rparr>, trace = [Transmit 0x76 [0xFA], Request 0x76 3]\<rparr>"
  let ?w2 = "\<lparr>bus = \<lparr>ptr = 0xF7, rx = []\<rparr>,
              trace = [Transmit 0x76 [0xFA], Request 0x76 3,
                       Transmit 0x76 [0xF7], Request 0x76 3]\<rparr>"
  have t0: "readTemperature (sim_wire example_regs) (example_session\<lparr>dig_P1 := 0\<rparr>) sim_world
     = (2508 / 100, example_session\<lparr>dig_P1 := 0, t_fine := 128422\<rparr>, ?w1)"
    by (simp add: readTemperature_def read24_sim example_session_def example_regs_def
        sim_world_def BMX280_REG_TEMP_def)
  have t1: "readTemperature (sim_wire example_regs) example_session sim_world
     = (2508 / 100, example_session\<lparr>t_fine := 128422\<rparr>, ?w1)"
    by (rule example_temperature) (simp_all add: example_regs_def)
  have r0: "read24 (sim_wire example_regs) (example_session\<lparr>dig_P1 := 0, t_fine := 128422\<rparr>)
              BMX280_REG_PRESS ?w1 = (0x655AC0, ?w2)"
    by (simp add: read24_sim example_session_def example_regs_def BMX280_REG_PRESS_def)
  have r1: "read24 (sim_wire example_regs) (example_session\<lparr>t_fine := 128422\<rparr>)
              BMX280_REG_PRESS ?w1 = (0x655AC0, ?w2)"
    by (simp add: read24_sim example_session_def example_regs_def BMX280_REG_PRESS_def)
  have v0: "pressure_var1 (example_session\<lparr>dig_P1 := 0, t_fine := 128422\<rparr>) = 0"
    by (simp add: pressure_var1_def example_session_def)
  have v1: "pressure_var1 (example_session\<lparr>t_fine := 128422\<rparr>) = 597560748"
    by (simp add: pressure_var1_def example_session_def)
  have v2: "pressure_var2 (example_session\<lparr>t_fine := 128422\<rparr>) = 98104795527812"
    by (simp add: pressure_var2_def example_session_def)
  have p: "pressure_p (example_session\<lparr>t_fine := 128422\<rparr>) 415148 597560748 98104795527812
             = Some 25767233"
    by (simp add: pressure_p_def div_i64_def example_session_def signed_divide_int_def)
  show ?thesis
    using readPressure_zero_guard [OF t0 r0] readPressure_zero_guard [OF t1 r1] t0
    by (simp add: v0 v1 v2 p)
qed

section \<open>The clamp of the humidity formula\<close>

text \<open>
  C3. On the BME280, for every raw sample, coefficient set and fine temperature,
  \<^verbatim>\<open>readHumidity\<close> returns \<open>(c >> 12) / 1024\<close> where \<open>c\<close> is the value of
  \<open>v_x1_u32r\<close> before the clamp, clamped to \<open>0 .. 419430400\<close>: below 0 the result is the
  one for 0, above 419430400 the one for 419430400.
\<close>

theorem readHumidity_clamped:
  assumes "chipID s = CHIP_ID_BME280"
    and "readTemperature W s w = (t, s1, w1)"
    and "read16 W s1 BME280_REG_HUM w1 = (raw, w2)"
  shows "readHumidity W s w =
           (real_of_int (spec_clamp (sint (humidity_v_x1 s1 (ucast raw))) div 2 ^ 12) / 1024, s1, w2)
    \<and> (sint (humidity_v_x1 s1 (ucast raw)) < 0 \<longrightarrow>
          spec_clamp (sint (humidity_v_x1 s1 (ucast raw))) = 0
          \<and> fst (readHumidity W s w) = real_of_int (0 div 2 ^ 12) / 1024)
    \<and> (419430400 < sint (humidity_v_x1 s1 (ucast raw)) \<longrightarrow>
          spec_clamp (sint (humidity_v_x1 s1 (ucast raw))) = 419430400
          \<and> fst (readHumidity W s w) = real_of_int (419430400 div 2 ^ 12) / 1024)
    \<and> 0 \<le> spec_clamp (sint (humidity_v_x1 s1 (ucast raw)))
    \<and> spec_clamp (sint (humidity_v_x1 s1 (ucast raw))) \<le> 419430400"
proof -
  have R: "readHumidity W s w =
           (real_of_int (spec_clamp (sint (humidity_v_x1 s1 (ucast raw))) div 2 ^ 12) / 1024, s1, w2)"
    using assms
    by (simp add: readHumidity_def Let_def word_sless_alt spec_clamp_def signed_asr12)
  show ?thesis
    unfolding R by (simp add: spec_clamp_def)
qed

theorem readHumidity_clamped_witness:
  "chipID example_session = CHIP_ID_BME280
   \<and> sint (humidity_v_x1 (example_session\<lparr>t_fine := 128422\<rparr>) (ucast (0 :: u16))) < 0
   \<and> readHumidity (sim_wire (example_regs(0xFD := 0, 0xFE := 0))) example_session sim_world
       = (0, example_session\<lparr>t_fine := 128422\<rparr>,
          \<lparr>bus = \<lparr>ptr = 0xFD, rx = []\<rparr>,
           trace = [Transmit 0x76 [0xFA], Request 0x76 3, Transmit 0x76 [0xFD], Request 0x76 2]\<rparr>)
   \<and> 419430400 < sint (humidity_v_x1 (example_session\<lparr>t_fine := 128422\<rparr>) (ucast (0xFFFF :: u16)))
   \<and> readHumidity (sim_wire (example_regs(0xFD := 0xFF, 0xFE := 0xFF))) example_session sim_world
       = (100, example_session\<lparr>t_fine := 128422\<rparr>,
          \<lparr>bus = \<lparr>ptr = 0xFD, rx = []\<rparr>,
           trace = [Transmit 0x76 [0xFA], Request 0x76 3, Transmit 0x76 [0xFD], Request 0x76 2]\<rparr>)
   \<and> readHumidity (sim_wire example_regs) example_session sim_world
       = (53855 / 1024, example_session\<lparr>t_fine := 128422\<rparr>,
          \<lparr>bus = \<lparr>ptr = 0xFD, rx = []\<rparr>,
           trace = [Transmit 0x76 [0xFA], Request 0x76 3, Transmit 0x76 [0xFD], Request 0x76 2]\<rparr>)"
proof -
  let ?s1 = "example_session\<lparr>t_fine := 128422\<rparr>"
  let ?w1 = "\<lparr>bus = \<lparr>ptr = 0xFA, rx = []\<rparr>, trace = [Transmit 0x76 [0xFA], Request 0x76 3]\<rparr>"
  let ?w2 = "\<lparr>bus = \<lparr>ptr = 0xFD, rx = []\<rparr>,
           trace = [Transmit 0x76 [0xFA], Request 0x76 3, Transmit 0x76 [0xFD], Request 0x76 2]\<rparr>"
  have c: "chipID example_session = CHIP_ID_BME280"
    by (simp add: example_session_def CHIP_ID_BME280_def)
  have tl: "readTemperature (sim_wire (example_regs(0xFD := 0, 0xFE := 0))) example_session sim_world
      = (2508 / 100, ?s1, ?w1)"
    by (rule example_temperature) (simp_all add: example_regs_def)
  have th: "readTemperature (sim_wire (example_regs(0xFD := 0xFF, 0xFE := 0xFF))) example_session sim_world
      = (2508 / 100, ?s1, ?w1)"
    by (rule example_temperature) (simp_all add: example_regs_def)
  have tm: "readTemperature (sim_wire example_regs) example_session sim_world
      = (2508 / 100, ?s1, ?w1)"
    by (rule example_temperature) (simp_all add: example_regs_def)
  have rl: "read16 (sim_wire (example_regs(0xFD := 0, 0xFE := 0))) ?s1 BME280_REG_HUM ?w1 = (0, ?w2)"
    by (simp add: read16_sim example_session_def BME280_REG_HUM_def)
  have rh: "read16 (sim_wire (example_regs(0xFD := 0xFF, 0xFE := 0xFF))) ?s1 BME280_REG_HUM ?w1
      = (0xFFFF, ?w2)"
    by (simp add: read16_sim example_session_def BME280_REG_HUM_def)
  have rm: "read16 (sim_wire example_regs) ?s1 BME280_REG_HUM ?w1 = (0x7000, ?w2)"
    by (simp add: read16_sim example_session_def example_regs_def BME280_REG_HUM_def)
  have vl: "humidity_v_x1 ?s1 0 = - 474139724"
    by (simp add: humidity_v_x1_def example_session_def)
  have vh: "humidity_v_x1 ?s1 0xFFFF = 1066239927"
    by (simp add: humidity_v_x1_def example_session_def)
  have vm: "humidity_v_x1 ?s1 0x7000 = 220592597"
    by (simp add: humidity_v_x1_def example_session_def)
  show ?thesis
    using readHumidity_clamped [OF c tl rl] readHumidity_clamped [OF c th rh]
      readHumidity_clamped [OF c tm rm] c
    by (simp add: vl vh vm spec_clamp_def)
qed

section \<open>Temperature is computed first\<close>

text \<open>
  C4. Every call of \<^verbatim>\<open>readPressure\<close>, and every call of \<^verbatim>\<open>readHumidity\<close> on the
  BME280, computes the temperature first: its result does not depend on the fine
  temperature the driver object held before the call, the driver object it leaves is
  the one \<^verbatim>\<open>readTemperature\<close> leaves (with the fine temperature just computed), and
  in the trace the read of the temperature register comes before the read of the
  pressure or humidity register.
\<close>

theorem temperature_refreshed_first:
  "readPressure W (s\<lparr>t_fine := stale\<rparr>) w = readPressure W s w
   \<and> (\<exists>p w'. readPressure W s w = Some (p, fst (snd (readTemperature W s w)), w')
        \<and> trace w' = trace w @ [Transmit (i2cAddr s) [BMX280_REG_TEMP], Request (i2cAddr s) 3,
                                Transmit (i2cAddr s) [BMX280_REG_PRESS], Request (i2cAddr s) 3])
   \<and> (chipID s = CHIP_ID_BME280 \<longrightarrow>
        readHumidity W (s\<lparr>t_fine := stale\<rparr>) w = readHumidity W s w
        \<and> (\<exists>h w'. readHumidity W s w = (h, fst (snd (readTemperature W s w)), w')
             \<and> (trace w' = trace w @ [Transmit (i2cAddr s) [BMX280_REG_TEMP], Request (i2cAddr s) 3,
                                     Transmit (i2cAddr s) [BME280_REG_HUM]]
                \<or> trace w' = trace w @ [Transmit (i2cAddr s) [BMX280_REG_TEMP], Request (i2cAddr s) 3,
                                     Transmit (i2cAddr s) [BME280_REG_HUM], Request (i2cAddr s) 2])))"
proof -
  obtain t s1 w1 where T: "readTemperature W s w = (t, s1, w1)"
    by (cases "readTemperature W s w") auto
  obtain raw w2 where R: "read24 W s1 BMX280_REG_PRESS w1 = (raw, w2)"
    by (cases "read24 W s1 BMX280_REG_PRESS w1") auto
  obtain rawh w3 where H: "read16 W s1 BME280_REG_HUM w1 = (rawh, w3)"
    by (cases "read16 W s1 BME280_REG_HUM w1") auto
  have tr1: "trace w1 = trace w @ [Transmit (i2cAddr s) [BMX280_REG_TEMP], Request (i2cAddr s) 3]"
    by (rule readTemperature_trace [OF T])
  have addr: "i2cAddr s1 = i2cAddr s"
    using readTemperature_addr [OF T] by simp
  have tr2: "trace w2 = trace w1 @ [Transmit (i2cAddr s) [BMX280_REG_PRESS], Request (i2cAddr s) 3]"
    using trace_read24 [of W s1 BMX280_REG_PRESS w1] R addr by simp
  have tr3: "trace w3 = trace w1 @ [Transmit (i2cAddr s) [BME280_REG_HUM]]
     \<or> trace w3 = trace w1 @ [Transmit (i2cAddr s) [BME280_REG_HUM], Request (i2cAddr s) 2]"
    using trace_read16 [of W s1 BME280_REG_HUM w1] H addr by simp
  have P: "\<exists>p w'. readPressure W s w = Some (p, fst (snd (readTemperature W s w)), w')
        \<and> trace w' = trace w @ [Transmit (i2cAddr s) [BMX280_REG_TEMP], Request (i2cAddr s) 3,
                                Transmit (i2cAddr s) [BMX280_REG_PRESS], Request (i2cAddr s) 3]"
    using readPressure_Some [OF T R] T tr1 tr2 by auto
  have Hm: "chipID s = CHIP_ID_BME280 \<Longrightarrow>
      \<exists>h w'. readHumidity W s w = (h, fst (snd (readTemperature W s w)), w')
             \<and> (trace w' = trace w @ [Transmit (i2cAddr s) [BMX280_REG_TEMP], Request (i2cAddr s) 3,
                                     Transmit (i2cAddr s) [BME280_REG_HUM]]
                \<or> trace w' = trace w @ [Transmit (i2cAddr s) [BMX280_REG_TEMP], Request (i2cAddr s) 3,
                                     Transmit (i2cAddr s) [BME280_REG_HUM], Request (i2cAddr s) 2])"
  proof -
    assume "chipID s = CHIP_ID_BME280"
    then have "snd (readHumidity W s w) = (s1, w3)"
      using T H by (simp add: readHumidity_def Let_def)
    then have "readHumidity W s w = (fst (readHumidity W s w), fst (snd (readTemperature W s w)), w3)"
      using T by (metis fst_conv prod.collapse snd_conv)
    moreover have "trace w3 = trace w @ [Transmit (i2cAddr s) [BMX280_REG_TEMP], Request (i2cAddr s) 3,
                                     Transmit (i2cAddr s) [BME280_REG_HUM]]
                \<or> trace w3 = trace w @ [Transmit (i2cAddr s) [BMX280_REG_TEMP], Request (i2cAddr s) 3,
                                     Transmit (i2cAddr s) [BME280_REG_HUM], Request (i2cAddr s) 2]"
      using tr1 tr3 by auto
    ultimately show ?thesis by blast
  qed
  show ?thesis
    using P Hm readPressure_stale [where W = W and s = s and x = stale and w = w]
      readHumidity_stale [where W = W and s = s and x = stale and w = w]
    by blast
qed

theorem temperature_refreshed_first_witness:
  "chipID example_session = CHIP_ID_BME280
   \<and> readPressure (sim_wire example_regs) (example_session\<lparr>t_fine := 999\<rparr>) sim_world
       = readPressure (sim_wire example_regs) example_session sim_world
   \<and> readHumidity (sim_wire example_regs) (example_session\<lparr>t_fine := 999\<rparr>) sim_world
       = readHumidity (sim_wire example_regs) example_session sim_world
   \<and> fst (snd (readTemperature (sim_wire example_regs) example_session sim_world))
       = example_session\<lparr>t_fine := 128422\<rparr>
   \<and> (\<exists>p w'. readPressure (sim_wire example_regs) example_session sim_world
                 = Some (p, example_session\<lparr>t_fine := 128422\<rparr>, w')
         \<and> trace w' = [Transmit 0x76 [0xFA], Request 0x76 3, Transmit 0x76 [0xF7], Request 0x76 3])"
proof -
  have c: "chipID example_session = CHIP_ID_BME280"
    by (simp add: example_session_def CHIP_ID_BME280_def)
  have t1: "readTemperature (sim_wire example_regs) example_session sim_world
     = (2508 / 100, example_session\<lparr>t_fine := 128422\<rparr>,
        \<lparr>bus = \<lparr>ptr = 0xFA, rx = []\<rparr>, trace = [Transmit 0x76 [0xFA], Request 0x76 3]\<rparr>)"
    by (rule example_temperature) (simp_all add: example_regs_def)
  have a: "i2cAddr example_session = 0x76" and tr: "trace sim_world = []"
    by (simp_all add: example_session_def sim_world_def)
  show ?thesis
    using temperature_refreshed_first
      [where W = "sim_wire example_regs" and s = example_session and stale = 999
         and w = sim_world] c
    by (simp add: t1 a tr reg_defs)
qed

section \<open>The temperature formula\<close>

text \<open>
  C1. For every 24-bit value of the temperature register and all coefficients \<open>T1\<close>
  (unsigned), \<open>T2\<close>, \<open>T3\<close> (signed), \<^verbatim>\<open>readTemperature\<close> drops the low 4 bits of the
  raw value, computes \<open>var1\<close> and \<open>var2\<close> by the two formulas in signed 32-bit
  arithmetic, stores their sum as the fine temperature and returns
  \<open>((fineTemperature * 5 + 128) >> 8) / 100\<close>. The formulas are those of
  \<open>spec_var1\<close>, \<open>spec_var2\<close>, \<open>spec_fineTemperature\<close> and \<open>spec_celsius\<close>; the stored
  field, read as a signed integer, is \<open>spec_fineTemperature\<close>.
\<close>

theorem readTemperature_formula:
  assumes "read24 W s BMX280_REG_TEMP w = (raw, w1)" and "uint raw < 2 ^ 24"
  shows "readTemperature W s w =
           (spec_celsius
              (spec_fineTemperature (uint raw) (uint (dig_T1 s)) (sint (dig_T2 s)) (sint (dig_T3 s))),
            s\<lparr>t_fine := word_of_int
              (spec_fineTemperature (uint raw) (uint (dig_T1 s)) (sint (dig_T2 s)) (sint (dig_T3 s)))\<rparr>,
            w1)
     \<and> sint (word_of_int
              (spec_fineTemperature (uint raw) (uint (dig_T1 s)) (sint (dig_T2 s)) (sint (dig_T3 s))) :: i32)
         = spec_fineTemperature (uint raw) (uint (dig_T1 s)) (sint (dig_T2 s)) (sint (dig_T3 s))"
proof -
  let ?adc = "signed_drop_bit 4 raw :: i32"
  let ?var1 = "signed_drop_bit 11
                 ((signed_drop_bit 3 ?adc - push_bit 1 (ucast (dig_T1 s))) * scast (dig_T2 s)) :: i32"
  let ?var2 = "signed_drop_bit 14
                 (signed_drop_bit 12
                    ((signed_drop_bit 4 ?adc - ucast (dig_T1 s))
                       * (signed_drop_bit 4 ?adc - ucast (dig_T1 s)))
                    * scast (dig_T3 s)) :: i32"
  let ?tf = "spec_fineTemperature (uint raw) (uint (dig_T1 s)) (sint (dig_T2 s)) (sint (dig_T3 s))"
  have adc: "sint ?adc = spec_adc_T (uint raw)"
    by (simp only: sint_asr32 sint_raw24 [OF assms(2)] spec_adc_T_def)
  have v1: "sint ?var1 = spec_var1 (spec_adc_T (uint raw)) (uint (dig_T1 s)) (sint (dig_T2 s))"
    by (simp only: sint_asr32 sint_mult32 sint_sub32 sint_shl1_32 sint_ucast_16_32
        sint_scast_16_32 sint_raw24 [OF assms(2)] spec_var1_def spec_adc_T_def)
  have v2: "sint ?var2 = spec_var2 (spec_adc_T (uint raw)) (uint (dig_T1 s)) (sint (dig_T3 s))"
    by (simp only: sint_asr32 sint_mult32 sint_sub32 sint_ucast_16_32
        sint_scast_16_32 sint_raw24 [OF assms(2)] spec_var2_def spec_adc_T_def)
  have tf: "sint (?var1 + ?var2) = ?tf"
    by (simp only: sint_add32 v1 v2 spec_fineTemperature_def)
  have "?var1 + ?var2 = word_of_int (sint (?var1 + ?var2))"
    by simp
  then have tfw: "?var1 + ?var2 = word_of_int ?tf"
    by (simp only: tf)
  have T: "real_of_int (sint (signed_drop_bit 8 ((?var1 + ?var2) * 5 + 128))) / 100 = spec_celsius ?tf"
    by (simp only: sint_scale_celsius tf spec_celsius_def)
  have R: "readTemperature W s w =
     (real_of_int (sint (signed_drop_bit 8 ((?var1 + ?var2) * 5 + 128))) / 100,
      s\<lparr>t_fine := ?var1 + ?var2\<rparr>, w1)"
    by (simp add: readTemperature_def assms(1) Let_def)
  have S: "sint (word_of_int ?tf :: i32) = ?tf"
    by (simp only: spec_fineTemperature_def sint_word_of_int_s32)
  show ?thesis
    using R T tfw S by (simp only:)
qed

theorem readTemperature_formula_witness:
  "read24 (sim_wire example_regs) example_session BMX280_REG_TEMP sim_world
     = (0x7EED00, \<lparr>bus = \<lparr>ptr = 0xFA, rx = []\<rparr>,
                   trace = [Transmit 0x76 [0xFA], Request 0x76 3]\<rparr>)
   \<and> uint (0x7EED00 :: u32) < 2 ^ 24
   \<and> spec_adc_T 0x7EED00 = 519888
   \<and> spec_var1 519888 27504 26435 = 128793
   \<and> spec_var2 519888 27504 (- 1000) = - 371
   \<and> spec_fineTemperature 0x7EED00 27504 26435 (- 1000) = 128422
   \<and> spec_celsius 128422 = 2508 / 100
   \<and> readTemperature (sim_wire example_regs) example_session sim_world
     = (2508 / 100, example_session\<lparr>t_fine := 128422\<rparr>,
        \<lparr>bus = \<lparr>ptr = 0xFA, rx = []\<rparr>, trace = [Transmit 0x76 [0xFA], Request 0x76 3]\<rparr>)"
proof -
  have r: "read24 (sim_wire example_regs) example_session BMX280_REG_TEMP sim_world
     = (0x7EED00, \<lparr>bus = \<lparr>ptr = 0xFA, rx = []\<rparr>,
                   trace = [Transmit 0x76 [0xFA], Request 0x76 3]\<rparr>)"
    by (simp add: read24_sim example_regs_def example_session_def sim_world_def
        BMX280_REG_TEMP_def)
  have b: "uint (0x7EED00 :: u32) < 2 ^ 24" by simp
  have a: "spec_adc_T 0x7EED00 = 519888" by (simp add: spec_adc_T_def)
  have v1: "spec_var1 519888 27504 26435 = 128793" by (simp add: spec_var1_def s32_def)
  have v2: "spec_var2 519888 27504 (- 1000) = - 371" by (simp add: spec_var2_def s32_def)
  have f: "spec_fineTemperature 0x7EED00 27504 26435 (- 1000) = 128422"
    by (simp add: spec_fineTemperature_def a v1 v2 s32_def)
  have c: "spec_celsius 128422 = 2508 / 100" by (simp add: spec_celsius_def s32_def)
  have co: "uint (dig_T1 example_session) = 27504 \<and> sint (dig_T2 example_session) = 26435
      \<and> sint (dig_T3 example_session) = - 1000"
    by (simp add: example_session_def)
  show ?thesis
    using readTemperature_formula [OF r b] r a v1 v2 f c co by simp
qed

section \<open>Decoding the calibration coefficients\<close>

text \<open>
  C5. On a sensor with register contents \<open>rg\<close>: a 16-bit read assembles the two bytes
  most significant first, \<^verbatim>\<open>read16_LE\<close> swaps them, so that every 16-bit coefficient is
  the byte at its register plus 256 times the following byte; \<open>dig_T1\<close> and \<open>dig_P1\<close>
  are that value unsigned, all other 16-bit coefficients that value read as signed.
  On the BME280 the humidity block is read too, with
  \<open>dig_H4 = (signed byte at H4 << 4) | (low nibble of the next byte)\<close> and
  \<open>dig_H5 = (signed byte at H5 + 1 << 4) | (high nibble of the byte at H5)\<close>; on the
  other variant the humidity coefficients stay as they were and only the twelve
  temperature and pressure words are read.
\<close>

theorem readCoefficients_decode:
  assumes "readCoefficients (sim_wire rg) s w = (s', w')"
  shows "uint (fst (read16 (sim_wire rg) s r w)) = 256 * uint (rg r) + uint (rg (r + 1))
     \<and> uint (fst (read16_LE (sim_wire rg) s r w)) = uint (rg r) + 256 * uint (rg (r + 1))
     \<and> sint (fst (readS16_LE (sim_wire rg) s r w)) = s16 (uint (rg r) + 256 * uint (rg (r + 1)))
     \<and> uint (dig_T1 s') = uint (rg BMX280_REG_DIG_T1) + 256 * uint (rg (BMX280_REG_DIG_T1 + 1))
     \<and> sint (dig_T2 s') = s16 (uint (rg BMX280_REG_DIG_T2) + 256 * uint (rg (BMX280_REG_DIG_T2 + 1)))
     \<and> sint (dig_T3 s') = s16 (uint (rg BMX280_REG_DIG_T3) + 256 * uint (rg (BMX280_REG_DIG_T3 + 1)))
     \<and> uint (dig_P1 s') = uint (rg BMX280_REG_DIG_P1) + 256 * uint (rg (BMX280_REG_DIG_P1 + 1))
     \<and> sint (dig_P2 s') = s16 (uint (rg BMX280_REG_DIG_P2) + 256 * uint (rg (BMX280_REG_DIG_P2 + 1)))
     \<and> sint (dig_P3 s') = s16 (uint (rg BMX280_REG_DIG_P3) + 256 * uint (rg (BMX280_REG_DIG_P3 + 1)))
     \<and> sint (dig_P4 s') = s16 (uint (rg BMX280_REG_DIG_P4) + 256 * uint (rg (BMX280_REG_DIG_P4 + 1)))
     \<and> sint (dig_P5 s') = s16 (uint (rg BMX280_REG_DIG_P5) + 256 * uint (rg (BMX280_REG_DIG_P5 + 1)))
     \<and> sint (dig_P6 s') = s16 (uint (rg BMX280_REG_DIG_P6) + 256 * uint (rg (BMX280_REG_DIG_P6 + 1)))
     \<and> sint (dig_P7 s') = s16 (uint (rg BMX280_REG_DIG_P7) + 256 * uint (rg (BMX280_REG_DIG_P7 + 1)))
     \<and> sint (dig_P8 s') = s16 (uint (rg BMX280_REG_DIG_P8) + 256 * uint (rg (BMX280_REG_DIG_P8 + 1)))
     \<and> sint (dig_P9 s') = s16 (uint (rg BMX280_REG_DIG_P9) + 256 * uint (rg (BMX280_REG_DIG_P9 + 1)))
     \<and> (chipID s = CHIP_ID_BME280 \<longrightarrow>
          dig_H1 s' = rg BME280_REG_DIG_H1
          \<and> sint (dig_H2 s') = s16 (uint (rg BME280_REG_DIG_H2) + 256 * uint (rg (BME280_REG_DIG_H2 + 1)))
          \<and> dig_H3 s' = rg BME280_REG_DIG_H3
          \<and> sint (dig_H4 s') = push_bit 4 (sint (rg BME280_REG_DIG_H4)) OR uint (rg (BME280_REG_DIG_H4 + 1) AND 0xF)
          \<and> sint (dig_H5 s') = push_bit 4 (sint (rg (BME280_REG_DIG_H5 + 1))) OR uint (drop_bit 4 (rg BME280_REG_DIG_H5))
          \<and> dig_H6 s' = rg BME280_REG_DIG_H6)
     \<and> (chipID s \<noteq> CHIP_ID_BME280 \<longrightarrow>
          dig_H1 s' = dig_H1 s
          \<and> dig_H2 s' = dig_H2 s
          \<and> dig_H3 s' = dig_H3 s
          \<and> dig_H4 s' = dig_H4 s
          \<and> dig_H5 s' = dig_H5 s
          \<and> dig_H6 s' = dig_H6 s
          \<and> trace w' = trace w @ concat (map (\<lambda>r. [Transmit (i2cAddr s) [r], Request (i2cAddr s) 2])
                    [BMX280_REG_DIG_T1, BMX280_REG_DIG_T2, BMX280_REG_DIG_T3, BMX280_REG_DIG_P1,
                     BMX280_REG_DIG_P2, BMX280_REG_DIG_P3, BMX280_REG_DIG_P4, BMX280_REG_DIG_P5,
                     BMX280_REG_DIG_P6, BMX280_REG_DIG_P7, BMX280_REG_DIG_P8, BMX280_REG_DIG_P9]))"
proof -
  define LE :: "u8 \<Rightarrow> u16" where "LE = (\<lambda>r. push_bit 8 (ucast (rg (r + 1))) OR ucast (rg r))"
  have LEu: "uint (LE r) = uint (rg r) + 256 * uint (rg (r + 1))" for r
    by (simp add: LE_def uint_cat16)
  have LEs: "sint (LE r) = s16 (uint (rg r) + 256 * uint (rg (r + 1)))" for r
    by (simp only: sint_s16 LEu)
  have le: "read16_LE (sim_wire rg) s r w =
     (LE r, \<lparr>bus = \<lparr>ptr = r, rx = []\<rparr>,
             trace = trace w @ [Transmit (i2cAddr s) [r], Request (i2cAddr s) 2]\<rparr>)" for s r w
    by (simp add: read16_LE_sim LE_def)
  define base where "base =
     s\<lparr>dig_T1 := LE BMX280_REG_DIG_T1, dig_T2 := LE BMX280_REG_DIG_T2,
       dig_T3 := LE BMX280_REG_DIG_T3, dig_P1 := LE BMX280_REG_DIG_P1,
       dig_P2 := LE BMX280_REG_DIG_P2, dig_P3 := LE BMX280_REG_DIG_P3,
       dig_P4 := LE BMX280_REG_DIG_P4, dig_P5 := LE BMX280_REG_DIG_P5,
       dig_P6 := LE BMX280_REG_DIG_P6, dig_P7 := LE BMX280_REG_DIG_P7,
       dig_P8 := LE BMX280_REG_DIG_P8, dig_P9 := LE BMX280_REG_DIG_P9\<rparr>"
  have other: "s' = base
      \<and> trace w' = trace w @ concat (map (\<lambda>r. [Transmit (i2cAddr s) [r], Request (i2cAddr s) 2])
                    [BMX280_REG_DIG_T1, BMX280_REG_DIG_T2, BMX280_REG_DIG_T3, BMX280_REG_DIG_P1,
                     BMX280_REG_DIG_P2, BMX280_REG_DIG_P3, BMX280_REG_DIG_P4, BMX280_REG_DIG_P5,
                     BMX280_REG_DIG_P6, BMX280_REG_DIG_P7, BMX280_REG_DIG_P8, BMX280_REG_DIG_P9])"
    if "chipID s \<noteq> CHIP_ID_BME280"
    using assms that
    by (auto simp add: readCoefficients_def readS16_LE_def le Let_def base_def)
  have bme: "s' = base\<lparr>dig_H1 := rg BME280_REG_DIG_H1, dig_H2 := LE BME280_REG_DIG_H2,
        dig_H3 := rg BME280_REG_DIG_H3,
        dig_H4 := word_of_int (push_bit 4 (sint (rg BME280_REG_DIG_H4))
                                 OR uint (rg (BME280_REG_DIG_H4 + 1) AND 0xF)),
        dig_H5 := word_of_int (push_bit 4 (sint (rg (BME280_REG_DIG_H5 + 1)))
                                 OR uint (drop_bit 4 (rg BME280_REG_DIG_H5))),
        dig_H6 := rg BME280_REG_DIG_H6\<rparr>"
    if "chipID s = CHIP_ID_BME280"
    using assms that
    by (auto simp add: readCoefficients_def readS16_LE_def le read8_sim Let_def base_def)
  have tp: "dig_T1 s' = LE BMX280_REG_DIG_T1 \<and> dig_T2 s' = LE BMX280_REG_DIG_T2
      \<and> dig_T3 s' = LE BMX280_REG_DIG_T3 \<and> dig_P1 s' = LE BMX280_REG_DIG_P1
      \<and> dig_P2 s' = LE BMX280_REG_DIG_P2 \<and> dig_P3 s' = LE BMX280_REG_DIG_P3
      \<and> dig_P4 s' = LE BMX280_REG_DIG_P4 \<and> dig_P5 s' = LE BMX280_REG_DIG_P5
      \<and> dig_P6 s' = LE BMX280_REG_DIG_P6 \<and> dig_P7 s' = LE BMX280_REG_DIG_P7
      \<and> dig_P8 s' = LE BMX280_REG_DIG_P8 \<and> dig_P9 s' = LE BMX280_REG_DIG_P9"
    using other bme by (cases "chipID s = CHIP_ID_BME280") (simp_all add: base_def)
  have A: "uint (fst (read16 (sim_wire rg) s r w)) = 256 * uint (rg r) + uint (rg (r + 1))"
    by (simp add: read16_sim uint_cat16)
  have B: "uint (fst (read16_LE (sim_wire rg) s r w)) = uint (rg r) + 256 * uint (rg (r + 1))"
    by (simp add: le LEu)
  have C: "sint (fst (readS16_LE (sim_wire rg) s r w)) = s16 (uint (rg r) + 256 * uint (rg (r + 1)))"
    by (simp add: readS16_LE_def le LEs)
  have D: "uint (dig_T1 s') = uint (rg BMX280_REG_DIG_T1) + 256 * uint (rg (BMX280_REG_DIG_T1 + 1))
     \<and> sint (dig_T2 s') = s16 (uint (rg BMX280_REG_DIG_T2) + 256 * uint (rg (BMX280_REG_DIG_T2 + 1)))
     \<and> sint (dig_T3 s') = s16 (uint (rg BMX280_REG_DIG_T3) + 256 * uint (rg (BMX280_REG_DIG_T3 + 1)))
     \<and> uint (dig_P1 s') = uint (rg BMX280_REG_DIG_P1) + 256 * uint (rg (BMX280_REG_DIG_P1 + 1))
     \<and> sint (dig_P2 s') = s16 (uint (rg BMX280_REG_DIG_P2) + 256 * uint (rg (BMX280_REG_DIG_P2 + 1)))
     \<and> sint (dig_P3 s') = s16 (uint (rg BMX280_REG_DIG_P3) + 256 * uint (rg (BMX280_REG_DIG_P3 + 1)))
     \<and> sint (dig_P4 s') = s16 (uint (rg BMX280_REG_DIG_P4) + 256 * uint (rg (BMX280_REG_DIG_P4 + 1)))
     \<and> sint (dig_P5 s') = s16 (uint (rg BMX280_REG_DIG_P5) + 256 * uint (rg (BMX280_REG_DIG_P5 + 1)))
     \<and> sint (dig_P6 s') = s16 (uint (rg BMX280_REG_DIG_P6) + 256 * uint (rg (BMX280_REG_DIG_P6 + 1)))
     \<and> sint (dig_P7 s') = s16 (uint (rg BMX280_REG_DIG_P7) + 256 * uint (rg (BMX280_REG_DIG_P7 + 1)))
     \<and> sint (dig_P8 s') = s16 (uint (rg BMX280_REG_DIG_P8) + 256 * uint (rg (BMX280_REG_DIG_P8 + 1)))
     \<and> sint (dig_P9 s') = s16 (uint (rg BMX280_REG_DIG_P9) + 256 * uint (rg (BMX280_REG_DIG_P9 + 1)))"
    by (simp only: tp LEu LEs simp_thms)
  have E: "chipID s = CHIP_ID_BME280 \<longrightarrow>
          dig_H1 s' = rg BME280_REG_DIG_H1
          \<and> sint (dig_H2 s') = s16 (uint (rg BME280_REG_DIG_H2) + 256 * uint (rg (BME280_REG_DIG_H2 + 1)))
          \<and> dig_H3 s' = rg BME280_REG_DIG_H3
          \<and> sint (dig_H4 s') = push_bit 4 (sint (rg BME280_REG_DIG_H4)) OR uint (rg (BME280_REG_DIG_H4 + 1) AND 0xF)
          \<and> sint (dig_H5 s') = push_bit 4 (sint (rg (BME280_REG_DIG_H5 + 1))) OR uint (drop_bit 4 (rg BME280_REG_DIG_H5))
          \<and> dig_H6 s' = rg BME280_REG_DIG_H6"
  proof
    assume c: "chipID s = CHIP_ID_BME280"
    have h4: "sint (dig_H4 s') = push_bit 4 (sint (rg BME280_REG_DIG_H4)) OR uint (rg (BME280_REG_DIG_H4 + 1) AND 0xF)"
      using bme [OF c] sint_H [OF nibble_lo, of "rg BME280_REG_DIG_H4" "rg (BME280_REG_DIG_H4 + 1)"]
      by simp
    have h5: "sint (dig_H5 s') = push_bit 4 (sint (rg (BME280_REG_DIG_H5 + 1))) OR uint (drop_bit 4 (rg BME280_REG_DIG_H5))"
      using bme [OF c] sint_H [OF nibble_hi, of "rg (BME280_REG_DIG_H5 + 1)" "rg BME280_REG_DIG_H5"]
      by simp
    have h2: "sint (dig_H2 s') = s16 (uint (rg BME280_REG_DIG_H2) + 256 * uint (rg (BME280_REG_DIG_H2 + 1)))"
      using bme [OF c] LEs [of BME280_REG_DIG_H2] by simp
    have h136: "dig_H1 s' = rg BME280_REG_DIG_H1 \<and> dig_H3 s' = rg BME280_REG_DIG_H3
        \<and> dig_H6 s' = rg BME280_REG_DIG_H6"
      using bme [OF c] by simp
    show "dig_H1 s' = rg BME280_REG_DIG_H1
          \<and> sint (dig_H2 s') = s16 (uint (rg BME280_REG_DIG_H2) + 256 * uint (rg (BME280_REG_DIG_H2 + 1)))
          \<and> dig_H3 s' = rg BME280_REG_DIG_H3
          \<and> sint (dig_H4 s') = push_bit 4 (sint (rg BME280_REG_DIG_H4)) OR uint (rg (BME280_REG_DIG_H4 + 1) AND 0xF)
          \<and> sint (dig_H5 s') = push_bit 4 (sint (rg (BME280_REG_DIG_H5 + 1))) OR uint (drop_bit 4 (rg BME280_REG_DIG_H5))
          \<and> dig_H6 s' = rg BME280_REG_DIG_H6"
      using h136 h2 h4 h5 by (simp only: simp_thms)
  qed
  have F: "chipID s \<noteq> CHIP_ID_BME280 \<longrightarrow>
          dig_H1 s' = dig_H1 s
          \<and> dig_H2 s' = dig_H2 s
          \<and> dig_H3 s' = dig_H3 s
          \<and> dig_H4 s' = dig_H4 s
          \<and> dig_H5 s' = dig_H5 s
          \<and> dig_H6 s' = dig_H6 s
          \<and> trace w' = trace w @ concat (map (\<lambda>r. [Transmit (i2cAddr s) [r], Request (i2cAddr s) 2])
                    [BMX280_REG_DIG_T1, BMX280_REG_DIG_T2, BMX280_REG_DIG_T3, BMX280_REG_DIG_P1,
                     BMX280_REG_DIG_P2, BMX280_REG_DIG_P3, BMX280_REG_DIG_P4, BMX280_REG_DIG_P5,
                     BMX280_REG_DIG_P6, BMX280_REG_DIG_P7, BMX280_REG_DIG_P8, BMX280_REG_DIG_P9])"
    using other by (simp add: base_def)
  show ?thesis
    using A B C D E F by (simp only: simp_thms)
qed

theorem readCoefficients_decode_witness:
  "chipID ((ErriezBMX280 0x76)\<lparr>chipID := 0x60\<rparr>) = CHIP_ID_BME280
   \<and> fst (readCoefficients (sim_wire example_regs) ((ErriezBMX280 0x76)\<lparr>chipID := 0x60\<rparr>) sim_world)
       = example_session
   \<and> uint (dig_T1 example_session) = 27504
   \<and> sint (dig_T3 example_session) = - 1000
   \<and> uint (dig_P1 example_session) = 36477
   \<and> sint (dig_P2 example_session) = - 10685
   \<and> sint (dig_H4 example_session) = 301
   \<and> sint (dig_H5 example_session) = 50
   \<and> sint (dig_H4 (fst (readCoefficients
                           (sim_wire (example_regs(0xE4 := 0xFF, 0xE5 := 0xA5, 0xE6 := 0x80)))
                           ((ErriezBMX280 0x76)\<lparr>chipID := 0x60\<rparr>) sim_world))) = - 11
   \<and> sint (dig_H5 (fst (readCoefficients
                           (sim_wire (example_regs(0xE4 := 0xFF, 0xE5 := 0xA5, 0xE6 := 0x80)))
                           ((ErriezBMX280 0x76)\<lparr>chipID := 0x60\<rparr>) sim_world))) = - 2038
   \<and> chipID ((ErriezBMX280 0x76)\<lparr>chipID := 0x58, dig_H4 := 7\<rparr>) \<noteq> CHIP_ID_BME280
   \<and> dig_H4 (fst (readCoefficients (sim_wire example_regs)
                     ((ErriezBMX280 0x76)\<lparr>chipID := 0x58, dig_H4 := 7\<rparr>) sim_world)) = 7"
proof -
  let ?s = "(ErriezBMX280 0x76)\<lparr>chipID := 0x60\<rparr>"
  let ?t = "(ErriezBMX280 0x76)\<lparr>chipID := 0x58, dig_H4 := 7\<rparr>"
  let ?rg = "example_regs(0xE4 := 0xFF, 0xE5 := 0xA5, 0xE6 := 0x80)"
  have c: "chipID ?s = CHIP_ID_BME280" and d: "chipID ?t \<noteq> CHIP_ID_BME280"
    by (simp_all add: ErriezBMX280_def CHIP_ID_BME280_def)
  have e: "fst (readCoefficients (sim_wire example_regs) ?s sim_world) = example_session"
    by code_simp
  have p1: "readCoefficients (sim_wire example_regs) ?s sim_world
      = (example_session, snd (readCoefficients (sim_wire example_regs) ?s sim_world))"
    using e by (simp add: prod_eq_iff)
  have p2: "readCoefficients (sim_wire ?rg) ?s sim_world
      = (fst (readCoefficients (sim_wire ?rg) ?s sim_world),
         snd (readCoefficients (sim_wire ?rg) ?s sim_world))"
    by simp
  have p3: "readCoefficients (sim_wire example_regs) ?t sim_world
      = (fst (readCoefficients (sim_wire example_regs) ?t sim_world),
         snd (readCoefficients (sim_wire example_regs) ?t sim_world))"
    by simp
  have v: "s16 (uint (example_regs BMX280_REG_DIG_T3) + 256 * uint (example_regs (BMX280_REG_DIG_T3 + 1))) = - 1000"
    "s16 (uint (example_regs BMX280_REG_DIG_P2) + 256 * uint (example_regs (BMX280_REG_DIG_P2 + 1))) = - 10685"
    "uint (example_regs BMX280_REG_DIG_T1) + 256 * uint (example_regs (BMX280_REG_DIG_T1 + 1)) = 27504"
    "uint (example_regs BMX280_REG_DIG_P1) + 256 * uint (example_regs (BMX280_REG_DIG_P1 + 1)) = 36477"
    by (simp_all add: example_regs_def reg_defs s16_def)
  have h: "push_bit 4 (sint (example_regs BME280_REG_DIG_H4))
             OR uint (example_regs (BME280_REG_DIG_H4 + 1) AND 0xF) = 301"
    "push_bit 4 (sint (example_regs (BME280_REG_DIG_H5 + 1)))
             OR uint (drop_bit 4 (example_regs BME280_REG_DIG_H5)) = 50"
    "push_bit 4 (sint (?rg BME280_REG_DIG_H4)) OR uint (?rg (BME280_REG_DIG_H4 + 1) AND 0xF) = - 11"
    "push_bit 4 (sint (?rg (BME280_REG_DIG_H5 + 1))) OR uint (drop_bit 4 (?rg BME280_REG_DIG_H5)) = - 2038"
    by code_simp+
  have t7: "dig_H4 ?t = 7" by simp
  show ?thesis
    using readCoefficients_decode [OF p1, of 0] readCoefficients_decode [OF p2, of 0]
      readCoefficients_decode [OF p3, of 0] c d e
    by (simp only: v h t7 simp_thms)
qed

section \<open>A failing bus during the coefficient reads\<close>

text \<open>
  C8, as the code has it. The bus is dead from the fourth transmission on, so every
  coefficient read fails (the transmission of the register address of \<open>dig_T1\<close> ends
  with status 2); \<^verbatim>\<open>begin\<close> nevertheless returns true, with all coefficients 0.
\<close>

theorem begin_surfaces_no_failure_counterexample:
  "fst (endTransmission (flaky_wire example_regs) 0x76 [BMX280_REG_DIG_T1]
          \<lparr>acks = 0, linked = True, dev = \<lparr>ptr = 0xF3, rx = []\<rparr>\<rparr>) = 2
   \<and> begin' (flaky_wire example_regs) (ErriezBMX280 0x76) (flaky_world 3)
     = Some (True, (ErriezBMX280 0x76)\<lparr>chipID := 0x60\<rparr>,
        \<lparr>bus = \<lparr>acks = 0, linked = False, dev = \<lparr>ptr = 0xF3, rx = []\<rparr>\<rparr>,
         trace =
           [Transmit 0x76 [0xD0], Request 0x76 1, Transmit 0x76 [0xE0, 0xB6], Delay 10,
            Transmit 0x76 [0xF3], Request 0x76 1,
            Transmit 0x76 [0x88], Transmit 0x76 [0x8A], Transmit 0x76 [0x8C],
            Transmit 0x76 [0x8E], Transmit 0x76 [0x90], Transmit 0x76 [0x92],
            Transmit 0x76 [0x94], Transmit 0x76 [0x96], Transmit 0x76 [0x98],
            Transmit 0x76 [0x9A], Transmit 0x76 [0x9C], Transmit 0x76 [0x9E],
            Transmit 0x76 [0xA1], Transmit 0x76 [0xE1], Transmit 0x76 [0xE3],
            Transmit 0x76 [0xE4], Transmit 0x76 [0xE5], Transmit 0x76 [0xE6],
            Transmit 0x76 [0xE5], Transmit 0x76 [0xE7],
            Transmit 0x76 [0xF4, 0x00], Transmit 0x76 [0xF2, 0x05],
            Transmit 0x76 [0xF5, 0x00], Transmit 0x76 [0xF4, 0xB7], Delay 100]\<rparr>)"
  by code_simp

text \<open>
  C8, amended. A transport failure during a coefficient read is not noticed. A read of
  8 or 16 bits whose address transmission fails yields 0. In the driver object that
  \<^verbatim>\<open>begin\<close> leaves, every coefficient taken from one read (\<open>dig_T1\<close> to \<open>dig_T3\<close>,
  \<open>dig_P1\<close> to \<open>dig_P9\<close> and, on the BME280, \<open>dig_H1\<close>, \<open>dig_H2\<close>, \<open>dig_H3\<close>,
  \<open>dig_H6\<close>) is the value that read yielded, so 0 when the read failed, whatever the
  member held before; \<open>dig_H4\<close> and \<open>dig_H5\<close> are assembled from their two reads, a
  failed one counting as 0. And \<^verbatim>\<open>begin\<close>, once the identity is recognised and the
  polling loop has ended, returns true.
\<close>

theorem begin_transport_failure_unnoticed:
  assumes "read8 W s BME280_REG_CHIPID w = (cid, w1)"
    and "cid = CHIP_ID_BMP280 \<or> cid = CHIP_ID_BME280"
    and "s1 = s\<lparr>chipID := cid\<rparr>"
    and "wait_im_update W s1 (delay 10 (write8 W s1 BME280_REG_RESET RESET_KEY w1)) = Some w2"
  shows "(\<forall>r wx. read_fails W s1 r wx \<longrightarrow>
            fst (read8 W s1 r wx) = 0 \<and> fst (read16 W s1 r wx) = 0
            \<and> fst (read16_LE W s1 r wx) = 0 \<and> fst (readS16_LE W s1 r wx) = 0)
    \<and> (\<exists>s' w'. begin' W s w = Some (True, s', w')
        \<and> (dig_T1 s' = fst (read16_LE W s1 BMX280_REG_DIG_T1 (world_before W s1 w2 0))
         \<and> dig_T2 s' = fst (readS16_LE W s1 BMX280_REG_DIG_T2 (world_before W s1 w2 1))
         \<and> dig_T3 s' = fst (readS16_LE W s1 BMX280_REG_DIG_T3 (world_before W s1 w2 2))
         \<and> dig_P1 s' = fst (read16_LE W s1 BMX280_REG_DIG_P1 (world_before W s1 w2 3))
         \<and> dig_P2 s' = fst (readS16_LE W s1 BMX280_REG_DIG_P2 (world_before W s1 w2 4))
         \<and> dig_P3 s' = fst (readS16_LE W s1 BMX280_REG_DIG_P3 (world_before W s1 w2 5))
         \<and> dig_P4 s' = fst (readS16_LE W s1 BMX280_REG_DIG_P4 (world_before W s1 w2 6))
         \<and> dig_P5 s' = fst (readS16_LE W s1 BMX280_REG_DIG_P5 (world_before W s1 w2 7))
         \<and> dig_P6 s' = fst (readS16_LE W s1 BMX280_REG_DIG_P6 (world_before W s1 w2 8))
         \<and> dig_P7 s' = fst (readS16_LE W s1 BMX280_REG_DIG_P7 (world_before W s1 w2 9))
         \<and> dig_P8 s' = fst (readS16_LE W s1 BMX280_REG_DIG_P8 (world_before W s1 w2 10))
         \<and> dig_P9 s' = fst (readS16_LE W s1 BMX280_REG_DIG_P9 (world_before W s1 w2 11)))
        \<and> ((read_fails W s1 BMX280_REG_DIG_T1 (world_before W s1 w2 0) \<longrightarrow> dig_T1 s' = 0)
         \<and> (read_fails W s1 BMX280_REG_DIG_T2 (world_before W s1 w2 1) \<longrightarrow> dig_T2 s' = 0)
         \<and> (read_fails W s1 BMX280_REG_DIG_T3 (world_before W s1 w2 2) \<longrightarrow> dig_T3 s' = 0)
         \<and> (read_fails W s1 BMX280_REG_DIG_P1 (world_before W s1 w2 3) \<longrightarrow> dig_P1 s' = 0)
         \<and> (read_fails W s1 BMX280_REG_DIG_P2 (world_before W s1 w2 4) \<longrightarrow> dig_P2 s' = 0)
         \<and> (read_fails W s1 BMX280_REG_DIG_P3 (world_before W s1 w2 5) \<longrightarrow> dig_P3 s' = 0)
         \<and> (read_fails W s1 BMX280_REG_DIG_P4 (world_before W s1 w2 6) \<longrightarrow> dig_P4 s' = 0)
         \<and> (read_fails W s1 BMX280_REG_DIG_P5 (world_before W s1 w2 7) \<longrightarrow> dig_P5 s' = 0)
         \<and> (read_fails W s1 BMX280_REG_DIG_P6 (world_before W s1 w2 8) \<longrightarrow> dig_P6 s' = 0)
         \<and> (read_fails W s1 BMX280_REG_DIG_P7 (world_before W s1 w2 9) \<longrightarrow> dig_P7 s' = 0)
         \<and> (read_fails W s1 BMX280_REG_DIG_P8 (world_before W s1 w2 10) \<longrightarrow> dig_P8 s' = 0)
         \<and> (read_fails W s1 BMX280_REG_DIG_P9 (world_before W s1 w2 11) \<longrightarrow> dig_P9 s' = 0))
        \<and> (cid = CHIP_ID_BME280 \<longrightarrow>
             (dig_H1 s' = fst (read8 W s1 BME280_REG_DIG_H1 (world_before W s1 w2 12))
              \<and> dig_H2 s' = fst (readS16_LE W s1 BME280_REG_DIG_H2 (world_before W s1 w2 13))
              \<and> dig_H3 s' = fst (read8 W s1 BME280_REG_DIG_H3 (world_before W s1 w2 14))
              \<and> dig_H4 s' = word_of_int
                (push_bit 4 (sint (fst (read8 W s1 BME280_REG_DIG_H4 (world_before W s1 w2 15))))
                 OR uint (fst (read8 W s1 (BME280_REG_DIG_H4 + 1) (world_before W s1 w2 16)) AND 0xF))
              \<and> dig_H5 s' = word_of_int
                (push_bit 4 (sint (fst (read8 W s1 (BME280_REG_DIG_H5 + 1) (world_before W s1 w2 17))))
                 OR uint (drop_bit 4 (fst (read8 W s1 BME280_REG_DIG_H5 (world_before W s1 w2 18)))))
              \<and> dig_H6 s' = fst (read8 W s1 BME280_REG_DIG_H6 (world_before W s1 w2 19)))
             \<and> ((read_fails W s1 BME280_REG_DIG_H1 (world_before W s1 w2 12) \<longrightarrow> dig_H1 s' = 0)
              \<and> (read_fails W s1 BME280_REG_DIG_H2 (world_before W s1 w2 13) \<longrightarrow> dig_H2 s' = 0)
              \<and> (read_fails W s1 BME280_REG_DIG_H3 (world_before W s1 w2 14) \<longrightarrow> dig_H3 s' = 0)
              \<and> (read_fails W s1 BME280_REG_DIG_H6 (world_before W s1 w2 19) \<longrightarrow> dig_H6 s' = 0)))
        \<and> (cid \<noteq> CHIP_ID_BME280 \<longrightarrow>
             dig_H1 s' = dig_H1 s
             \<and> dig_H2 s' = dig_H2 s
             \<and> dig_H3 s' = dig_H3 s
             \<and> dig_H4 s' = dig_H4 s
             \<and> dig_H5 s' = dig_H5 s
             \<and> dig_H6 s' = dig_H6 s))"
proof -
  obtain s' wc where rc: "readCoefficients W s1 w2 = (s', wc)"
    by (cases "readCoefficients W s1 w2") auto
  have c: "chipID s1 = cid" and hs: "dig_H1 s1 = dig_H1 s" "dig_H2 s1 = dig_H2 s"
    "dig_H3 s1 = dig_H3 s" "dig_H4 s1 = dig_H4 s" "dig_H5 s1 = dig_H5 s" "dig_H6 s1 = dig_H6 s"
    by (simp_all add: assms(3))
  have "\<exists>w'. begin' W s w = Some (True, s', w')"
    using begin_recognised [OF assms(1,2)] assms(4) rc
    by (simp add: assms(3) [symmetric])
  then obtain w' where B: "begin' W s w = Some (True, s', w')" by blast
  note st = readCoefficients_stores [OF rc, unfolded c hs]
  have A: "\<forall>r wx. read_fails W s1 r wx \<longrightarrow>
            fst (read8 W s1 r wx) = 0 \<and> fst (read16 W s1 r wx) = 0
            \<and> fst (read16_LE W s1 r wx) = 0 \<and> fst (readS16_LE W s1 r wx) = 0"
    by (simp add: read_fails_zero)
  have E: "(dig_T1 s' = fst (read16_LE W s1 BMX280_REG_DIG_T1 (world_before W s1 w2 0))
         \<and> dig_T2 s' = fst (readS16_LE W s1 BMX280_REG_DIG_T2 (world_before W s1 w2 1))
         \<and> dig_T3 s' = fst (readS16_LE W s1 BMX280_REG_DIG_T3 (world_before W s1 w2 2))
         \<and> dig_P1 s' = fst (read16_LE W s1 BMX280_REG_DIG_P1 (world_before W s1 w2 3))
         \<and> dig_P2 s' = fst (readS16_LE W s1 BMX280_REG_DIG_P2 (world_before W s1 w2 4))
         \<and> dig_P3 s' = fst (readS16_LE W s1 BMX280_REG_DIG_P3 (world_before W s1 w2 5))
         \<and> dig_P4 s' = fst (readS16_LE W s1 BMX280_REG_DIG_P4 (world_before W s1 w2 6))
         \<and> dig_P5 s' = fst (readS16_LE W s1 BMX280_REG_DIG_P5 (world_before W s1 w2 7))
         \<and> dig_P6 s' = fst (readS16_LE W s1 BMX280_REG_DIG_P6 (world_before W s1 w2 8))
         \<and> dig_P7 s' = fst (readS16_LE W s1 BMX280_REG_DIG_P7 (world_before W s1 w2 9))
         \<and> dig_P8 s' = fst (readS16_LE W s1 BMX280_REG_DIG_P8 (world_before W s1 w2 10))
         \<and> dig_P9 s' = fst (readS16_LE W s1 BMX280_REG_DIG_P9 (world_before W s1 w2 11)))"
    by (rule st [THEN conjunct1])
  have Z: "((read_fails W s1 BMX280_REG_DIG_T1 (world_before W s1 w2 0) \<longrightarrow> dig_T1 s' = 0)
         \<and> (read_fails W s1 BMX280_REG_DIG_T2 (world_before W s1 w2 1) \<longrightarrow> dig_T2 s' = 0)
         \<and> (read_fails W s1 BMX280_REG_DIG_T3 (world_before W s1 w2 2) \<longrightarrow> dig_T3 s' = 0)
         \<and> (read_fails W s1 BMX280_REG_DIG_P1 (world_before W s1 w2 3) \<longrightarrow> dig_P1 s' = 0)
         \<and> (read_fails W s1 BMX280_REG_DIG_P2 (world_before W s1 w2 4) \<longrightarrow> dig_P2 s' = 0)
         \<and> (read_fails W s1 BMX280_REG_DIG_P3 (world_before W s1 w2 5) \<longrightarrow> dig_P3 s' = 0)
         \<and> (read_fails W s1 BMX280_REG_DIG_P4 (world_before W s1 w2 6) \<longrightarrow> dig_P4 s' = 0)
         \<and> (read_fails W s1 BMX280_REG_DIG_P5 (world_before W s1 w2 7) \<longrightarrow> dig_P5 s' = 0)
         \<and> (read_fails W s1 BMX280_REG_DIG_P6 (world_before W s1 w2 8) \<longrightarrow> dig_P6 s' = 0)
         \<and> (read_fails W s1 BMX280_REG_DIG_P7 (world_before W s1 w2 9) \<longrightarrow> dig_P7 s' = 0)
         \<and> (read_fails W s1 BMX280_REG_DIG_P8 (world_before W s1 w2 10) \<longrightarrow> dig_P8 s' = 0)
         \<and> (read_fails W s1 BMX280_REG_DIG_P9 (world_before W s1 w2 11) \<longrightarrow> dig_P9 s' = 0))"
    by (simp add: E read_fails_zero)
  have H: "cid = CHIP_ID_BME280 \<longrightarrow>
             (dig_H1 s' = fst (read8 W s1 BME280_REG_DIG_H1 (world_before W s1 w2 12))
              \<and> dig_H2 s' = fst (readS16_LE W s1 BME280_REG_DIG_H2 (world_before W s1 w2 13))
              \<and> dig_H3 s' = fst (read8 W s1 BME280_REG_DIG_H3 (world_before W s1 w2 14))
              \<and> dig_H4 s' = word_of_int
                (push_bit 4 (sint (fst (read8 W s1 BME280_REG_DIG_H4 (world_before W s1 w2 15))))
                 OR uint (fst (read8 W s1 (BME280_REG_DIG_H4 + 1) (world_before W s1 w2 16)) AND 0xF))
              \<and> dig_H5 s' = word_of_int
                (push_bit 4 (sint (fst (read8 W s1 (BME280_REG_DIG_H5 + 1) (world_before W s1 w2 17))))
                 OR uint (drop_bit 4 (fst (read8 W s1 BME280_REG_DIG_H5 (world_before W s1 w2 18)))))
              \<and> dig_H6 s' = fst (read8 W s1 BME280_REG_DIG_H6 (world_before W s1 w2 19)))
             \<and> ((read_fails W s1 BME280_REG_DIG_H1 (world_before W s1 w2 12) \<longrightarrow> dig_H1 s' = 0)
              \<and> (read_fails W s1 BME280_REG_DIG_H2 (world_before W s1 w2 13) \<longrightarrow> dig_H2 s' = 0)
              \<and> (read_fails W s1 BME280_REG_DIG_H3 (world_before W s1 w2 14) \<longrightarrow> dig_H3 s' = 0)
              \<and> (read_fails W s1 BME280_REG_DIG_H6 (world_before W s1 w2 19) \<longrightarrow> dig_H6 s' = 0))"
  proof
    assume b: "cid = CHIP_ID_BME280"
    have he: "(dig_H1 s' = fst (read8 W s1 BME280_REG_DIG_H1 (world_before W s1 w2 12))
              \<and> dig_H2 s' = fst (readS16_LE W s1 BME280_REG_DIG_H2 (world_before W s1 w2 13))
              \<and> dig_H3 s' = fst (read8 W s1 BME280_REG_DIG_H3 (world_before W s1 w2 14))
              \<and> dig_H4 s' = word_of_int
                (push_bit 4 (sint (fst (read8 W s1 BME280_REG_DIG_H4 (world_before W s1 w2 15))))
                 OR uint (fst (read8 W s1 (BME280_REG_DIG_H4 + 1) (world_before W s1 w2 16)) AND 0xF))
              \<and> dig_H5 s' = word_of_int
                (push_bit 4 (sint (fst (read8 W s1 (BME280_REG_DIG_H5 + 1) (world_before W s1 w2 17))))
                 OR uint (drop_bit 4 (fst (read8 W s1 BME280_REG_DIG_H5 (world_before W s1 w2 18)))))
              \<and> dig_H6 s' = fst (read8 W s1 BME280_REG_DIG_H6 (world_before W s1 w2 19)))"
      by (rule st [THEN conjunct2, THEN conjunct1, THEN mp, OF b])
    have hz: "((read_fails W s1 BME280_REG_DIG_H1 (world_before W s1 w2 12) \<longrightarrow> dig_H1 s' = 0)
              \<and> (read_fails W s1 BME280_REG_DIG_H2 (world_before W s1 w2 13) \<longrightarrow> dig_H2 s' = 0)
              \<and> (read_fails W s1 BME280_REG_DIG_H3 (world_before W s1 w2 14) \<longrightarrow> dig_H3 s' = 0)
              \<and> (read_fails W s1 BME280_REG_DIG_H6 (world_before W s1 w2 19) \<longrightarrow> dig_H6 s' = 0))"
      by (simp add: he read_fails_zero)
    show "(dig_H1 s' = fst (read8 W s1 BME280_REG_DIG_H1 (world_before W s1 w2 12))
              \<and> dig_H2 s' = fst (readS16_LE W s1 BME280_REG_DIG_H2 (world_before W s1 w2 13))
              \<and> dig_H3 s' = fst (read8 W s1 BME280_REG_DIG_H3 (world_before W s1 w2 14))
              \<and> dig_H4 s' = word_of_int
                (push_bit 4 (sint (fst (read8 W s1 BME280_REG_DIG_H4 (world_before W s1 w2 15))))
                 OR uint (fst (read8 W s1 (BME280_REG_DIG_H4 + 1) (world_before W s1 w2 16)) AND 0xF))
              \<and> dig_H5 s' = word_of_int
                (push_bit 4 (sint (fst (read8 W s1 (BME280_REG_DIG_H5 + 1) (world_before W s1 w2 17))))
                 OR uint (drop_bit 4 (fst (read8 W s1 BME280_REG_DIG_H5 (world_before W s1 w2 18)))))
              \<and> dig_H6 s' = fst (read8 W s1 BME280_REG_DIG_H6 (world_before W s1 w2 19)))
             \<and> ((read_fails W s1 BME280_REG_DIG_H1 (world_before W s1 w2 12) \<longrightarrow> dig_H1 s' = 0)
              \<and> (read_fails W s1 BME280_REG_DIG_H2 (world_before W s1 w2 13) \<longrightarrow> dig_H2 s' = 0)
              \<and> (read_fails W s1 BME280_REG_DIG_H3 (world_before W s1 w2 14) \<longrightarrow> dig_H3 s' = 0)
              \<and> (read_fails W s1 BME280_REG_DIG_H6 (world_before W s1 w2 19) \<longrightarrow> dig_H6 s' = 0))"
      by (rule conjI [OF he hz])
  qed
  have O: "cid \<noteq> CHIP_ID_BME280 \<longrightarrow>
             dig_H1 s' = dig_H1 s
             \<and> dig_H2 s' = dig_H2 s
             \<and> dig_H3 s' = dig_H3 s
             \<and> dig_H4 s' = dig_H4 s
             \<and> dig_H5 s' = dig_H5 s
             \<and> dig_H6 s' = dig_H6 s"
    by (rule st [THEN conjunct2, THEN conjunct2])
  show ?thesis
    by (rule conjI [OF A]) (rule exI [of _ s'], rule exI [of _ w'],
        rule conjI [OF B conjI [OF E conjI [OF Z conjI [OF H O]]]])
qed

theorem begin_transport_failure_unnoticed_witness:
  "read8 (flaky_wire example_regs) example_session BME280_REG_CHIPID (flaky_world 19)
     = (0x60, \<lparr>bus = \<lparr>acks = 18, linked = True, dev = \<lparr>ptr = 0xD0, rx = []\<rparr>\<rparr>,
               trace = [Transmit 0x76 [0xD0], Request 0x76 1]\<rparr>)
   \<and> example_session = example_session\<lparr>chipID := 0x60\<rparr>
   \<and> wait_im_update (flaky_wire example_regs) example_session
         (delay 10 (write8 (flaky_wire example_regs) example_session BME280_REG_RESET RESET_KEY
                      \<lparr>bus = \<lparr>acks = 18, linked = True, dev = \<lparr>ptr = 0xD0, rx = []\<rparr>\<rparr>,
                       trace = [Transmit 0x76 [0xD0], Request 0x76 1]\<rparr>))
     = Some \<lparr>bus = \<lparr>acks = 16, linked = True, dev = \<lparr>ptr = 0xF3, rx = []\<rparr>\<rparr>,
             trace = [Transmit 0x76 [0xD0], Request 0x76 1, Transmit 0x76 [0xE0, 0xB6],
                      Delay 10, Transmit 0x76 [0xF3], Request 0x76 1]\<rparr>
   \<and> \<not> read_fails (flaky_wire example_regs) example_session BME280_REG_DIG_H4
         (world_before (flaky_wire example_regs) example_session
            \<lparr>bus = \<lparr>acks = 16, linked = True, dev = \<lparr>ptr = 0xF3, rx = []\<rparr>\<rparr>,
             trace = [Transmit 0x76 [0xD0], Request 0x76 1, Transmit 0x76 [0xE0, 0xB6],
                      Delay 10, Transmit 0x76 [0xF3], Request 0x76 1]\<rparr> 15)
   \<and> read_fails (flaky_wire example_regs) example_session (BME280_REG_DIG_H4 + 1)
         (world_before (flaky_wire example_regs) example_session
            \<lparr>bus = \<lparr>acks = 16, linked = True, dev = \<lparr>ptr = 0xF3, rx = []\<rparr>\<rparr>,
             trace = [Transmit 0x76 [0xD0], Request 0x76 1, Transmit 0x76 [0xE0, 0xB6],
                      Delay 10, Transmit 0x76 [0xF3], Request 0x76 1]\<rparr> 16)
   \<and> read_fails (flaky_wire example_regs) example_session BME280_REG_DIG_H6
         (world_before (flaky_wire example_regs) example_session
            \<lparr>bus = \<lparr>acks = 16, linked = True, dev = \<lparr>ptr = 0xF3, rx = []\<rparr>\<rparr>,
             trace = [Transmit 0x76 [0xD0], Request 0x76 1, Transmit 0x76 [0xE0, 0xB6],
                      Delay 10, Transmit 0x76 [0xF3], Request 0x76 1]\<rparr> 19)
   \<and> dig_H4 example_session = 301 \<and> dig_H5 example_session = 50
   \<and> dig_H6 example_session = 30
   \<and> (\<exists>s' w'. begin' (flaky_wire example_regs) example_session (flaky_world 19)
                   = Some (True, s', w')
          \<and> dig_T1 s' = 27504
          \<and> dig_H4 s' = 288 \<and> dig_H5 s' = 0 \<and> dig_H6 s' = 0)"
proof -
  let ?W = "flaky_wire example_regs"
  let ?w1 = "\<lparr>bus = \<lparr>acks = 18, linked = True, dev = \<lparr>ptr = 0xD0, rx = []\<rparr>\<rparr>,
               trace = [Transmit 0x76 [0xD0], Request 0x76 1]\<rparr>"
  let ?w2 = "\<lparr>bus = \<lparr>acks = 16, linked = True, dev = \<lparr>ptr = 0xF3, rx = []\<rparr>\<rparr>,
             trace = [Transmit 0x76 [0xD0], Request 0x76 1, Transmit 0x76 [0xE0, 0xB6],
                      Delay 10, Transmit 0x76 [0xF3], Request 0x76 1]\<rparr>"
  have r: "read8 ?W example_session BME280_REG_CHIPID (flaky_world 19) = (0x60, ?w1)"
    by code_simp
  have i: "(0x60 :: u8) = CHIP_ID_BMP280 \<or> (0x60 :: u8) = CHIP_ID_BME280"
    and b: "(0x60 :: u8) = CHIP_ID_BME280"
    by (simp_all add: CHIP_ID_BME280_def)
  have e: "example_session = example_session\<lparr>chipID := 0x60\<rparr>"
    by (simp add: example_session_def)
  have l: "wait_im_update ?W example_session
         (delay 10 (write8 ?W example_session BME280_REG_RESET RESET_KEY ?w1)) = Some ?w2"
    by code_simp
  have f: "\<not> read_fails ?W example_session BME280_REG_DIG_H4
               (world_before ?W example_session ?w2 15)"
    "read_fails ?W example_session (BME280_REG_DIG_H4 + 1)
               (world_before ?W example_session ?w2 16)"
    "read_fails ?W example_session BME280_REG_DIG_H6
               (world_before ?W example_session ?w2 19)"
    by code_simp+
  have v: "fst (read16_LE ?W example_session BMX280_REG_DIG_T1
                 (world_before ?W example_session ?w2 0)) = 27504"
    "(word_of_int
        (push_bit 4 (sint (fst (read8 ?W example_session BME280_REG_DIG_H4
                                  (world_before ?W example_session ?w2 15))))
         OR uint (fst (read8 ?W example_session (BME280_REG_DIG_H4 + 1)
                         (world_before ?W example_session ?w2 16)) AND 0xF)) :: i16) = 288"
    "(word_of_int
        (push_bit 4 (sint (fst (read8 ?W example_session (BME280_REG_DIG_H5 + 1)
                                  (world_before ?W example_session ?w2 17))))
         OR uint (drop_bit 4 (fst (read8 ?W example_session BME280_REG_DIG_H5
                                     (world_before ?W example_session ?w2 18))))) :: i16) = 0"
    by code_simp+
  have o: "dig_H4 example_session = 301" "dig_H5 example_session = 50"
    "dig_H6 example_session = 30"
    by (simp_all add: example_session_def)
  let ?wb = "world_before ?W example_session ?w2"
  from begin_transport_failure_unnoticed [OF r i e l, THEN conjunct2]
  obtain s' w' where P: "begin' ?W example_session (flaky_world 19) = Some (True, s', w')
        \<and> (dig_T1 s' = fst (read16_LE ?W example_session BMX280_REG_DIG_T1 (?wb 0))
         \<and> dig_T2 s' = fst (readS16_LE ?W example_session BMX280_REG_DIG_T2 (?wb 1))
         \<and> dig_T3 s' = fst (readS16_LE ?W example_session BMX280_REG_DIG_T3 (?wb 2))
         \<and> dig_P1 s' = fst (read16_LE ?W example_session BMX280_REG_DIG_P1 (?wb 3))
         \<and> dig_P2 s' = fst (readS16_LE ?W example_session BMX280_REG_DIG_P2 (?wb 4))
         \<and> dig_P3 s' = fst (readS16_LE ?W example_session BMX280_REG_DIG_P3 (?wb 5))
         \<and> dig_P4 s' = fst (readS16_LE ?W example_session BMX280_REG_DIG_P4 (?wb 6))
         \<and> dig_P5 s' = fst (readS16_LE ?W example_session BMX280_REG_DIG_P5 (?wb 7))
         \<and> dig_P6 s' = fst (readS16_LE ?W example_session BMX280_REG_DIG_P6 (?wb 8))
         \<and> dig_P7 s' = fst (readS16_LE ?W example_session BMX280_REG_DIG_P7 (?wb 9))
         \<and> dig_P8 s' = fst (readS16_LE ?W example_session BMX280_REG_DIG_P8 (?wb 10))
         \<and> dig_P9 s' = fst (readS16_LE ?W example_session BMX280_REG_DIG_P9 (?wb 11)))
        \<and> ((read_fails ?W example_session BMX280_REG_DIG_T1 (?wb 0) \<longrightarrow> dig_T1 s' = 0)
         \<and> (read_fails ?W example_session BMX280_REG_DIG_T2 (?wb 1) \<longrightarrow> dig_T2 s' = 0)
         \<and> (read_fails ?W example_session BMX280_REG_DIG_T3 (?wb 2) \<longrightarrow> dig_T3 s' = 0)
         \<and> (read_fails ?W example_session BMX280_REG_DIG_P1 (?wb 3) \<longrightarrow> dig_P1 s' = 0)
         \<and> (read_fails ?W example_session BMX280_REG_DIG_P2 (?wb 4) \<longrightarrow> dig_P2 s' = 0)
         \<and> (read_fails ?W example_session BMX280_REG_DIG_P3 (?wb 5) \<longrightarrow> dig_P3 s' = 0)
         \<and> (read_fails ?W example_session BMX280_REG_DIG_P4 (?wb 6) \<longrightarrow> dig_P4 s' = 0)
         \<and> (read_fails ?W example_session BMX280_REG_DIG_P5 (?wb 7) \<longrightarrow> dig_P5 s' = 0)
         \<and> (read_fails ?W example_session BMX280_REG_DIG_P6 (?wb 8) \<longrightarrow> dig_P6 s' = 0)
         \<and> (read_fails ?W example_session BMX280_REG_DIG_P7 (?wb 9) \<longrightarrow> dig_P7 s' = 0)
         \<and> (read_fails ?W example_session BMX280_REG_DIG_P8 (?wb 10) \<longrightarrow> dig_P8 s' = 0)
         \<and> (read_fails ?W example_session BMX280_REG_DIG_P9 (?wb 11) \<longrightarrow> dig_P9 s' = 0))
        \<and> ((0x60 :: u8) = CHIP_ID_BME280 \<longrightarrow>
             (dig_H1 s' = fst (read8 ?W example_session BME280_REG_DIG_H1 (?wb 12))
              \<and> dig_H2 s' = fst (readS16_LE ?W example_session BME280_REG_DIG_H2 (?wb 13))
              \<and> dig_H3 s' = fst (read8 ?W example_session BME280_REG_DIG_H3 (?wb 14))
              \<and> dig_H4 s' = word_of_int
                (push_bit 4 (sint (fst (read8 ?W example_session BME280_REG_DIG_H4 (?wb 15))))
                 OR uint (fst (read8 ?W example_session (BME280_REG_DIG_H4 + 1) (?wb 16)) AND 0xF))
              \<and> dig_H5 s' = word_of_int
                (push_bit 4 (sint (fst (read8 ?W example_session (BME280_REG_DIG_H5 + 1) (?wb 17))))
                 OR uint (drop_bit 4 (fst (read8 ?W example_session BME280_REG_DIG_H5 (?wb 18)))))
              \<and> dig_H6 s' = fst (read8 ?W example_session BME280_REG_DIG_H6 (?wb 19)))
             \<and> ((read_fails ?W example_session BME280_REG_DIG_H1 (?wb 12) \<longrightarrow> dig_H1 s' = 0)
              \<and> (read_fails ?W example_session BME280_REG_DIG_H2 (?wb 13) \<longrightarrow> dig_H2 s' = 0)
              \<and> (read_fails ?W example_session BME280_REG_DIG_H3 (?wb 14) \<longrightarrow> dig_H3 s' = 0)
              \<and> (read_fails ?W example_session BME280_REG_DIG_H6 (?wb 19) \<longrightarrow> dig_H6 s' = 0)))
        \<and> ((0x60 :: u8) \<noteq> CHIP_ID_BME280 \<longrightarrow>
             dig_H1 s' = dig_H1 example_session
             \<and> dig_H2 s' = dig_H2 example_session
             \<and> dig_H3 s' = dig_H3 example_session
             \<and> dig_H4 s' = dig_H4 example_session
             \<and> dig_H5 s' = dig_H5 example_session
             \<and> dig_H6 s' = dig_H6 example_session)"
    by (elim exE) (rule that)
  note B = P [THEN conjunct1]
  note E = P [THEN conjunct2, THEN conjunct1]
  note H = P [THEN conjunct2, THEN conjunct2, THEN conjunct2, THEN conjunct1, THEN mp, OF b]
  note t1 = E [THEN conjunct1]
  note h4 = H [THEN conjunct1, THEN conjunct2, THEN conjunct2, THEN conjunct2, THEN conjunct1]
  note h5 = H [THEN conjunct1, THEN conjunct2, THEN conjunct2, THEN conjunct2, THEN conjunct2,
               THEN conjunct1]
  note h6 = H [THEN conjunct2, THEN conjunct2, THEN conjunct2, THEN conjunct2, THEN mp, OF f(3)]
  have "begin' ?W example_session (flaky_world 19) = Some (True, s', w')
          \<and> dig_T1 s' = 27504
          \<and> dig_H4 s' = 288 \<and> dig_H5 s' = 0 \<and> dig_H6 s' = 0"
    using B t1 h4 h5 h6 by (simp only: v simp_thms)
  then have X: "\<exists>s' w'. begin' ?W example_session (flaky_world 19) = Some (True, s', w')
          \<and> dig_T1 s' = 27504
          \<and> dig_H4 s' = 288 \<and> dig_H5 s' = 0 \<and> dig_H6 s' = 0"
    by (intro exI)
  show ?thesis
    using r e l f o X by (simp only: simp_thms)
qed

section \<open>The polling loop has no bound\<close>



end
